theory Spec2Isabelle
  imports Main "HOL-Library.Signed_Division"
begin

section \<open>JavaScript values and the browser environment\<close>

text \<open>
  The repository ships two theme managers, both a class \<^verbatim>\<open>ThemeManager\<close>:
  the one bundled in \<^verbatim>\<open>src/dev/scripts/main.js\<close> (suffix \<open>_main\<close> below) and the
  stand-alone one in \<^verbatim>\<open>src/unnamed/part_003\<close> (suffix \<open>_part3\<close>). Each
  method is embedded as a function on an explicit state holding the fields of the
  object together with the part of the browser it reads and writes: the
  \<^verbatim>\<open>localStorage\<close> area, the \<^verbatim>\<open>prefers-color-scheme\<close> media query, the
  \<^verbatim>\<open>data-theme\<close> attribute of the document root, the events dispatched on
  \<^verbatim>\<open>window\<close> and the console.

  Not embedded, since no method reads them back: the toggle buttons and their ARIA
  labels, the \<^verbatim>\<open>theme-color\<close> meta tag, and the CSS transition that the
  \<^verbatim>\<open>animate\<close> flag switches on for a moment.
\<close>

datatype jsval = JUndefined | JNull | JStr string

text \<open>\<^verbatim>\<open>String(v)\<close>, as applied by \<^verbatim>\<open>setItem\<close>, \<^verbatim>\<open>setAttribute\<close> and template literals.\<close>

fun ToString :: "jsval \<Rightarrow> string" where
  "ToString JUndefined = ''undefined''"
| "ToString JNull = ''null''"
| "ToString (JStr s) = s"

fun truthy :: "jsval \<Rightarrow> bool" where
  "truthy JUndefined = False"
| "truthy JNull = False"
| "truthy (JStr s) = (s \<noteq> [])"

text \<open>\<^verbatim>\<open>a || b\<close>\<close>

definition js_or :: "jsval \<Rightarrow> jsval \<Rightarrow> jsval" where
  "js_or a b = (if truthy a then a else b)"

text \<open>\<^verbatim>\<open>Array.prototype.indexOf\<close>: the first index holding the value, \<open>-1\<close> if none.\<close>

fun indexOf_from :: "jsval list \<Rightarrow> jsval \<Rightarrow> int \<Rightarrow> int" where
  "indexOf_from [] v i = - 1"
| "indexOf_from (x # xs) v i = (if x = v then i else indexOf_from xs v (i + 1))"

definition indexOf :: "jsval list \<Rightarrow> jsval \<Rightarrow> int" where
  "indexOf xs v = indexOf_from xs v 0"

text \<open>\<^verbatim>\<open>xs[i]\<close>: reading outside the array gives \<^verbatim>\<open>undefined\<close>.\<close>

definition array_get :: "jsval list \<Rightarrow> int \<Rightarrow> jsval" where
  "array_get xs i = (if 0 \<le> i \<and> i < int (length xs) then xs ! nat i else JUndefined)"

text \<open>\<^verbatim>\<open>a % b\<close> on integers: the remainder takes the sign of the dividend.\<close>

definition js_rem :: "int \<Rightarrow> int \<Rightarrow> int" where
  "js_rem a b = a smod b"

datatype js_error = StorageError

datatype level = Log | Warn

text \<open>
  The \<^verbatim>\<open>themechange\<close> events. main.js sends \<^verbatim>\<open>{theme, actualTheme}\<close>,
  part_003 sends \<^verbatim>\<open>{theme, appliedTheme, systemTheme}\<close>.
\<close>

datatype custom_event =
    ThemeChange_main jsval jsval
  | ThemeChange_part3 jsval jsval jsval

record world =
  items :: "string \<rightharpoonup> string"
  getItem_throws :: bool
  setItem_throws :: bool
  prefers_dark :: bool
  data_theme :: "string option"
  dispatched :: "custom_event list"
  console :: "(level \<times> string) list"

text \<open>
  \<open>items\<close> is the content of \<^verbatim>\<open>localStorage\<close>; \<open>getItem_throws\<close> and
  \<open>setItem_throws\<close> say whether the browser currently refuses the access (storage
  disabled, quota exceeded). \<open>prefers_dark\<close> is the live \<^verbatim>\<open>matches\<close> of
  \<^verbatim>\<open>matchMedia('(prefers-color-scheme: dark)')\<close>. \<open>dispatched\<close> and
  \<open>console\<close> grow at the end. A console entry is the level and the message text; an
  exception object passed as a further argument is not rendered.
\<close>

definition then_do :: "js_error + 'a \<Rightarrow> ('a \<Rightarrow> js_error + 'b) \<Rightarrow> js_error + 'b" where
  "then_do r f = (case r of Inl e \<Rightarrow> Inl e | Inr x \<Rightarrow> f x)"

definition localStorage_getItem :: "string \<Rightarrow> 'a world_scheme \<Rightarrow> js_error + jsval" where
  "localStorage_getItem k w =
     (if getItem_throws w then Inl StorageError
      else Inr (case items w k of None \<Rightarrow> JNull | Some v \<Rightarrow> JStr v))"

definition localStorage_setItem ::
  "string \<Rightarrow> jsval \<Rightarrow> 'a world_scheme \<Rightarrow> js_error + 'a world_scheme" where
  "localStorage_setItem k v w =
     (if setItem_throws w then Inl StorageError
      else Inr (w\<lparr>items := (items w)(k \<mapsto> ToString v)\<rparr>))"

definition console_warn :: "string \<Rightarrow> 'a world_scheme \<Rightarrow> 'a world_scheme" where
  "console_warn msg w = w\<lparr>console := console w @ [(Warn, msg)]\<rparr>"

definition console_log :: "string \<Rightarrow> 'a world_scheme \<Rightarrow> 'a world_scheme" where
  "console_log msg w = w\<lparr>console := console w @ [(Log, msg)]\<rparr>"

definition dispatchEvent :: "custom_event \<Rightarrow> 'a world_scheme \<Rightarrow> 'a world_scheme" where
  "dispatchEvent ev w = w\<lparr>dispatched := dispatched w @ [ev]\<rparr>"

definition setAttribute_data_theme :: "jsval \<Rightarrow> 'a world_scheme \<Rightarrow> 'a world_scheme" where
  "setAttribute_data_theme v w = w\<lparr>data_theme := Some (ToString v)\<rparr>"

text \<open>Listeners registered on an event target run one after the other.\<close>

fun fire :: "nat \<Rightarrow> ('s \<Rightarrow> js_error + 's) \<Rightarrow> 's \<Rightarrow> js_error + 's" where
  "fire 0 f s = Inr s"
| "fire (Suc n) f s = then_do (f s) (fire n f)"

definition storageKey :: string where
  "storageKey = ''williams-theme''"

definition themes :: "jsval list" where
  "themes = [JStr ''light'', JStr ''dark'', JStr ''auto'']"

definition defaultTheme :: jsval where
  "defaultTheme = JStr ''auto''"

text \<open>
  What a caller or the browser can do with a manager. The first five are method calls,
  the last is the \<^verbatim>\<open>change\<close> event of the media query with the new value of
  \<^verbatim>\<open>matches\<close>.
\<close>

datatype action =
    Init
  | SetTheme jsval
  | CycleTheme
  | GetTheme
  | GetEffective
  | SystemChange bool

section \<open>The theme manager of main.js\<close>

record main_tm = world +
  currentTheme_main :: jsval
  listeners_main :: nat

text \<open>\<open>listeners_main\<close> counts the listeners added to \<^verbatim>\<open>this.systemPreference\<close>.\<close>

definition getStoredTheme_main :: "main_tm \<Rightarrow> js_error + (jsval \<times> main_tm)" where
  "getStoredTheme_main s =
     (case localStorage_getItem storageKey s of
        Inr v \<Rightarrow> Inr (js_or v (JStr ''auto''), s)
      | Inl e \<Rightarrow>
          Inr (JStr ''auto'',
               console_warn ''localStorage not available, defaulting to auto theme'' s))"

definition storeTheme_main :: "jsval \<Rightarrow> main_tm \<Rightarrow> js_error + main_tm" where
  "storeTheme_main theme s =
     (case localStorage_setItem storageKey theme s of
        Inr s' \<Rightarrow> Inr s'
      | Inl e \<Rightarrow> Inr (console_warn ''Could not store theme preference'' s))"

definition updateDocumentTheme_main :: "jsval \<Rightarrow> bool \<Rightarrow> main_tm \<Rightarrow> main_tm" where
  "updateDocumentTheme_main actualTheme animate s = setAttribute_data_theme actualTheme s"

definition applyTheme_main :: "jsval \<Rightarrow> bool \<Rightarrow> main_tm \<Rightarrow> js_error + main_tm" where
  "applyTheme_main theme0 animate s0 =
     (let (theme, s1) =
            (if theme0 \<notin> set themes
             then (JStr ''auto'',
                   console_warn
                     (''Invalid theme: '' @ ToString theme0 @ '', defaulting to auto'') s0)
             else (theme0, s0));
          s2 = s1\<lparr>currentTheme_main := theme\<rparr>
      in then_do (storeTheme_main theme s2) (\<lambda>s3.
           let actualTheme =
                 (if theme = JStr ''auto''
                  then (if prefers_dark s3 then JStr ''dark'' else JStr ''light'')
                  else theme);
               s4 = updateDocumentTheme_main actualTheme animate s3
           in Inr (dispatchEvent (ThemeChange_main theme actualTheme) s4)))"

text \<open>The arrow function that \<^verbatim>\<open>init\<close> adds to the media query.\<close>

definition listener_main :: "bool \<Rightarrow> main_tm \<Rightarrow> js_error + main_tm" where
  "listener_main e_matches s =
     (if currentTheme_main s = JStr ''auto''
      then Inr (updateDocumentTheme_main
                  (if e_matches then JStr ''dark'' else JStr ''light'') False s)
      else Inr s)"

definition init_main :: "main_tm \<Rightarrow> js_error + main_tm" where
  "init_main s =
     then_do (applyTheme_main (currentTheme_main s) False s) (\<lambda>s1.
       let s2 = s1\<lparr>listeners_main := Suc (listeners_main s1)\<rparr>
       in Inr (console_log
                 (''Theme Manager initialized: '' @ ToString (currentTheme_main s2)) s2))"

text \<open>
  \<^verbatim>\<open>new ThemeManager()\<close>: the fields of the argument are overwritten, the rest of it is
  the browser in which the constructor runs.
\<close>

definition constructor_main :: "main_tm \<Rightarrow> js_error + main_tm" where
  "constructor_main s =
     then_do (getStoredTheme_main s) (\<lambda>(v, s1).
       init_main (s1\<lparr>currentTheme_main := v, listeners_main := 0\<rparr>))"

definition cycleTheme_main :: "main_tm \<Rightarrow> js_error + main_tm" where
  "cycleTheme_main s =
     (let currentIndex = indexOf themes (currentTheme_main s);
          nextIndex = js_rem (currentIndex + 1) (int (length themes))
      in applyTheme_main (array_get themes nextIndex) True s)"

definition setTheme_main :: "jsval \<Rightarrow> main_tm \<Rightarrow> js_error + main_tm" where
  "setTheme_main theme s = applyTheme_main theme True s"

definition getTheme_main :: "main_tm \<Rightarrow> jsval" where
  "getTheme_main s = currentTheme_main s"

definition getActualTheme_main :: "main_tm \<Rightarrow> jsval" where
  "getActualTheme_main s =
     (if currentTheme_main s = JStr ''auto''
      then (if prefers_dark s then JStr ''dark'' else JStr ''light'')
      else currentTheme_main s)"

text \<open>The browser changes the colour scheme and runs the registered listeners.\<close>

definition systemChange_main :: "bool \<Rightarrow> main_tm \<Rightarrow> js_error + main_tm" where
  "systemChange_main b s =
     fire (listeners_main s) (listener_main b) (s\<lparr>prefers_dark := b\<rparr>)"

text \<open>
  One action with the value it returns: \<^verbatim>\<open>undefined\<close> for the methods without a
  \<^verbatim>\<open>return\<close> statement.
\<close>

fun call_main :: "action \<Rightarrow> main_tm \<Rightarrow> js_error + (jsval \<times> main_tm)" where
  "call_main Init s = then_do (init_main s) (\<lambda>s'. Inr (JUndefined, s'))"
| "call_main (SetTheme v) s = then_do (setTheme_main v s) (\<lambda>s'. Inr (JUndefined, s'))"
| "call_main CycleTheme s = then_do (cycleTheme_main s) (\<lambda>s'. Inr (JUndefined, s'))"
| "call_main GetTheme s = Inr (getTheme_main s, s)"
| "call_main GetEffective s = Inr (getActualTheme_main s, s)"
| "call_main (SystemChange b) s =
     then_do (systemChange_main b s) (\<lambda>s'. Inr (JUndefined, s'))"

fun run_main :: "action list \<Rightarrow> main_tm \<Rightarrow> js_error + main_tm" where
  "run_main [] s = Inr s"
| "run_main (a # as) s = then_do (call_main a s) (\<lambda>(v, s'). run_main as s')"

section \<open>The theme manager of part_003\<close>

record part3_tm = world +
  currentTheme_part3 :: jsval
  systemTheme_part3 :: jsval
  listeners_part3 :: nat

text \<open>
  The options are those of \<^verbatim>\<open>new ThemeManager()\<close>, the only construction in the
  file: \<open>storageKey\<close>, \<open>defaultTheme\<close> and \<open>themes\<close> above.
  \<open>listeners_part3\<close> counts the listeners added to \<^verbatim>\<open>this.mediaQuery\<close>.
\<close>

definition getStoredTheme_part3 :: "part3_tm \<Rightarrow> js_error + (jsval \<times> part3_tm)" where
  "getStoredTheme_part3 s =
     (case localStorage_getItem storageKey s of
        Inr v \<Rightarrow> Inr (v, s)
      | Inl e \<Rightarrow> Inr (JNull, console_warn ''Failed to access localStorage:'' s))"

definition storeTheme_part3 :: "jsval \<Rightarrow> part3_tm \<Rightarrow> js_error + part3_tm" where
  "storeTheme_part3 theme s =
     (case localStorage_setItem storageKey theme s of
        Inr s' \<Rightarrow> Inr s'
      | Inl e \<Rightarrow> Inr (console_warn ''Failed to store theme:'' s))"

definition detectSystemTheme_part3 :: "part3_tm \<Rightarrow> part3_tm" where
  "detectSystemTheme_part3 s =
     s\<lparr>systemTheme_part3 := (if prefers_dark s then JStr ''dark'' else JStr ''light'')\<rparr>"

definition dispatchThemeChangeEvent_part3 :: "jsval \<Rightarrow> jsval \<Rightarrow> part3_tm \<Rightarrow> part3_tm" where
  "dispatchThemeChangeEvent_part3 theme appliedTheme s =
     dispatchEvent (ThemeChange_part3 theme appliedTheme (systemTheme_part3 s)) s"

definition applyTheme_part3 :: "jsval \<Rightarrow> bool \<Rightarrow> part3_tm \<Rightarrow> js_error + part3_tm" where
  "applyTheme_part3 theme animate s =
     (let actualTheme =
            (if theme = JStr ''auto'' then js_or (systemTheme_part3 s) (JStr ''light'')
             else theme);
          s1 = setAttribute_data_theme actualTheme s;
          s2 = s1\<lparr>currentTheme_part3 := theme\<rparr>
      in then_do (storeTheme_part3 theme s2) (\<lambda>s3.
           Inr (dispatchThemeChangeEvent_part3 theme actualTheme s3)))"

text \<open>The arrow function that \<^verbatim>\<open>setupSystemThemeListener\<close> adds to the media query.\<close>

definition listener_part3 :: "bool \<Rightarrow> part3_tm \<Rightarrow> js_error + part3_tm" where
  "listener_part3 e_matches s =
     (let s1 = s\<lparr>systemTheme_part3 :=
                   (if e_matches then JStr ''dark'' else JStr ''light'')\<rparr>
      in if currentTheme_part3 s1 = JStr ''auto''
         then applyTheme_part3 (JStr ''auto'') True s1
         else Inr s1)"

definition setupSystemThemeListener_part3 :: "part3_tm \<Rightarrow> part3_tm" where
  "setupSystemThemeListener_part3 s = s\<lparr>listeners_part3 := Suc (listeners_part3 s)\<rparr>"

definition init_part3 :: "part3_tm \<Rightarrow> js_error + part3_tm" where
  "init_part3 s =
     then_do (getStoredTheme_part3 s) (\<lambda>(storedTheme, s1).
       let s2 = s1\<lparr>currentTheme_part3 := js_or storedTheme defaultTheme\<rparr>
       in then_do (applyTheme_part3 (currentTheme_part3 s2) False s2) (\<lambda>s3.
            Inr (setupSystemThemeListener_part3 (detectSystemTheme_part3 s3))))"

definition constructor_part3 :: "part3_tm \<Rightarrow> js_error + part3_tm" where
  "constructor_part3 s =
     init_part3
       (s\<lparr>currentTheme_part3 := JNull, systemTheme_part3 := JNull, listeners_part3 := 0\<rparr>)"

definition cycleTheme_part3 :: "part3_tm \<Rightarrow> js_error + part3_tm" where
  "cycleTheme_part3 s =
     (let currentIndex = indexOf themes (currentTheme_part3 s);
          nextIndex = js_rem (currentIndex + 1) (int (length themes));
          nextTheme = array_get themes nextIndex
      in applyTheme_part3 nextTheme True s)"

definition setTheme_part3 :: "jsval \<Rightarrow> part3_tm \<Rightarrow> js_error + part3_tm" where
  "setTheme_part3 theme s =
     (if theme \<in> set themes then applyTheme_part3 theme True s
      else Inr (console_warn
                  (''Theme '' @ [CHR 0x22] @ ToString theme @ [CHR 0x22] @ '' is not available'')
                  s))"

definition getTheme_part3 :: "part3_tm \<Rightarrow> jsval" where
  "getTheme_part3 s = currentTheme_part3 s"

definition getAppliedTheme_part3 :: "part3_tm \<Rightarrow> jsval" where
  "getAppliedTheme_part3 s =
     (if currentTheme_part3 s = JStr ''auto''
      then js_or (systemTheme_part3 s) (JStr ''light'')
      else currentTheme_part3 s)"

definition systemChange_part3 :: "bool \<Rightarrow> part3_tm \<Rightarrow> js_error + part3_tm" where
  "systemChange_part3 b s =
     fire (listeners_part3 s) (listener_part3 b) (s\<lparr>prefers_dark := b\<rparr>)"

fun call_part3 :: "action \<Rightarrow> part3_tm \<Rightarrow> js_error + (jsval \<times> part3_tm)" where
  "call_part3 Init s = then_do (init_part3 s) (\<lambda>s'. Inr (JUndefined, s'))"
| "call_part3 (SetTheme v) s = then_do (setTheme_part3 v s) (\<lambda>s'. Inr (JUndefined, s'))"
| "call_part3 CycleTheme s = then_do (cycleTheme_part3 s) (\<lambda>s'. Inr (JUndefined, s'))"
| "call_part3 GetTheme s = Inr (getTheme_part3 s, s)"
| "call_part3 GetEffective s = Inr (getAppliedTheme_part3 s, s)"
| "call_part3 (SystemChange b) s =
     then_do (systemChange_part3 b s) (\<lambda>s'. Inr (JUndefined, s'))"

fun run_part3 :: "action list \<Rightarrow> part3_tm \<Rightarrow> js_error + part3_tm" where
  "run_part3 [] s = Inr s"
| "run_part3 (a # as) s = then_do (call_part3 a s) (\<lambda>(v, s'). run_part3 as s')"

section \<open>Concrete browsers for the examples\<close>

text \<open>
  A browser with an empty storage area, a light colour scheme, no \<^verbatim>\<open>data-theme\<close>
  attribute yet, and nothing dispatched or logged. The fields of the manager are the
  ones of an object before its constructor has run.
\<close>

definition fresh_main :: main_tm where
  "fresh_main =
     \<lparr>items = Map.empty, getItem_throws = False, setItem_throws = False,
      prefers_dark = False, data_theme = None, dispatched = [], console = [],
      currentTheme_main = JUndefined, listeners_main = 0\<rparr>"

definition fresh_part3 :: part3_tm where
  "fresh_part3 =
     \<lparr>items = Map.empty, getItem_throws = False, setItem_throws = False,
      prefers_dark = False, data_theme = None, dispatched = [], console = [],
      currentTheme_part3 = JUndefined, systemTheme_part3 = JUndefined,
      listeners_part3 = 0\<rparr>"

text \<open>
  Once a listener is registered, \<^verbatim>\<open>systemTheme\<close> of part_003 follows the colour
  scheme of the browser.
\<close>

definition tracks_system :: "part3_tm \<Rightarrow> bool" where
  "tracks_system s \<longleftrightarrow>
     0 < listeners_part3 s \<and>
     systemTheme_part3 s = (if prefers_dark s then JStr ''dark'' else JStr ''light'')"

text \<open>A manager of main.js whose stored and current theme is light.\<close>

definition light_main :: main_tm where
  "light_main =
     \<lparr>items = [storageKey \<mapsto> ''light''], getItem_throws = False, setItem_throws = False,
      prefers_dark = False, data_theme = Some ''light'', dispatched = [], console = [],
      currentTheme_main = JStr ''light'', listeners_main = 1\<rparr>"

text \<open>The same for part_003.\<close>

definition light_part3 :: part3_tm where
  "light_part3 =
     \<lparr>items = [storageKey \<mapsto> ''light''], getItem_throws = False, setItem_throws = False,
      prefers_dark = False, data_theme = Some ''light'', dispatched = [], console = [],
      currentTheme_part3 = JStr ''light'', systemTheme_part3 = JStr ''light'',
      listeners_part3 = 1\<rparr>"

section \<open>What each method does to the state\<close>

lemma then_do_Inr [simp]: "then_do (Inr x) f = f x"
  by (simp add: then_do_def)

lemma then_do_Inl [simp]: "then_do (Inl e) f = Inl e"
  by (simp add: then_do_def)

lemma in_themes: "v \<in> set themes \<longleftrightarrow> v = JStr ''light'' \<or> v = JStr ''dark'' \<or> v = JStr ''auto''"
  by (auto simp: themes_def)

lemma next_of_theme:
  "array_get themes (js_rem (indexOf themes v + 1) (int (length themes))) =
     (if v = JStr ''light'' then JStr ''dark''
      else if v = JStr ''dark'' then JStr ''auto''
      else JStr ''light'')"
  by (simp add: themes_def indexOf_def js_rem_def array_get_def signed_modulo_int_def)

lemma fire_total:
  assumes "\<And>s. \<exists>s'. f s = Inr s'"
  shows "\<exists>s'. fire n f s = Inr s'"
proof (induction n arbitrary: s)
  case 0
  show ?case by simp
next
  case (Suc n)
  obtain s1 where "f s = Inr s1" using assms by blast
  with Suc show ?case by simp
qed

lemma fire_preserves:
  assumes step: "\<And>s s'. P s \<Longrightarrow> f s = Inr s' \<Longrightarrow> P s'"
    and "P s" and "fire n f s = Inr s'"
  shows "P s'"
  using assms(2,3)
proof (induction n arbitrary: s)
  case 0
  then show ?case by simp
next
  case (Suc n)
  then show ?case
    by (cases "f s") (auto dest: step)
qed

lemma storeTheme_main_eq:
  "storeTheme_main t s =
     Inr (if setItem_throws s then console_warn ''Could not store theme preference'' s
          else s\<lparr>items := (items s)(storageKey \<mapsto> ToString t)\<rparr>)"
  by (simp add: storeTheme_main_def localStorage_setItem_def)

lemma applyTheme_main_effect:
  "\<exists>s'. applyTheme_main t a s = Inr s' \<and>
     currentTheme_main s' = (if t \<in> set themes then t else JStr ''auto'') \<and>
     data_theme s' = Some (ToString (getActualTheme_main s')) \<and>
     dispatched s' =
       dispatched s @ [ThemeChange_main (currentTheme_main s') (getActualTheme_main s')] \<and>
     items s' =
       (if setItem_throws s then items s
        else (items s)(storageKey \<mapsto> ToString (currentTheme_main s'))) \<and>
     console s' =
       console s
       @ (if t \<in> set themes then []
          else [(Warn, ''Invalid theme: '' @ ToString t @ '', defaulting to auto'')])
       @ (if setItem_throws s then [(Warn, ''Could not store theme preference'')] else []) \<and>
     prefers_dark s' = prefers_dark s \<and> listeners_main s' = listeners_main s \<and>
     getItem_throws s' = getItem_throws s \<and> setItem_throws s' = setItem_throws s"
  by (simp add: applyTheme_main_def storeTheme_main_eq updateDocumentTheme_main_def
      setAttribute_data_theme_def dispatchEvent_def console_warn_def getActualTheme_main_def
      Let_def)

lemma storeTheme_part3_eq:
  "storeTheme_part3 t s =
     Inr (if setItem_throws s then console_warn ''Failed to store theme:'' s
          else s\<lparr>items := (items s)(storageKey \<mapsto> ToString t)\<rparr>)"
  by (simp add: storeTheme_part3_def localStorage_setItem_def)

lemma applyTheme_part3_effect:
  "\<exists>s'. applyTheme_part3 t a s = Inr s' \<and>
     currentTheme_part3 s' = t \<and>
     systemTheme_part3 s' = systemTheme_part3 s \<and>
     data_theme s' = Some (ToString (getAppliedTheme_part3 s')) \<and>
     dispatched s' =
       dispatched s @ [ThemeChange_part3 t (getAppliedTheme_part3 s') (systemTheme_part3 s)] \<and>
     items s' =
       (if setItem_throws s then items s else (items s)(storageKey \<mapsto> ToString t)) \<and>
     console s' =
       console s @ (if setItem_throws s then [(Warn, ''Failed to store theme:'')] else []) \<and>
     prefers_dark s' = prefers_dark s \<and> listeners_part3 s' = listeners_part3 s \<and>
     getItem_throws s' = getItem_throws s \<and> setItem_throws s' = setItem_throws s"
  by (simp add: applyTheme_part3_def storeTheme_part3_eq setAttribute_data_theme_def
      dispatchThemeChangeEvent_part3_def dispatchEvent_def console_warn_def
      getAppliedTheme_part3_def Let_def)


lemma init_main_effect:
  "\<exists>s'. init_main s = Inr s' \<and>
     currentTheme_main s' =
       (if currentTheme_main s \<in> set themes then currentTheme_main s else JStr ''auto'') \<and>
     data_theme s' = Some (ToString (getActualTheme_main s')) \<and>
     dispatched s' =
       dispatched s @ [ThemeChange_main (currentTheme_main s') (getActualTheme_main s')] \<and>
     items s' =
       (if setItem_throws s then items s
        else (items s)(storageKey \<mapsto> ToString (currentTheme_main s'))) \<and>
     console s' =
       console s
       @ (if currentTheme_main s \<in> set themes then []
          else [(Warn, ''Invalid theme: '' @ ToString (currentTheme_main s)
                         @ '', defaulting to auto'')])
       @ (if setItem_throws s then [(Warn, ''Could not store theme preference'')] else [])
       @ [(Log, ''Theme Manager initialized: '' @ ToString (currentTheme_main s'))] \<and>
     prefers_dark s' = prefers_dark s \<and> listeners_main s' = Suc (listeners_main s) \<and>
     getItem_throws s' = getItem_throws s \<and> setItem_throws s' = setItem_throws s"
proof -
  obtain s1 where a: "applyTheme_main (currentTheme_main s) False s = Inr s1"
    and f: "currentTheme_main s1 =
       (if currentTheme_main s \<in> set themes then currentTheme_main s else JStr ''auto'')"
      "data_theme s1 = Some (ToString (getActualTheme_main s1))"
      "dispatched s1 =
         dispatched s @ [ThemeChange_main (currentTheme_main s1) (getActualTheme_main s1)]"
      "items s1 =
         (if setItem_throws s then items s
          else (items s)(storageKey \<mapsto> ToString (currentTheme_main s1)))"
      "console s1 =
         console s
         @ (if currentTheme_main s \<in> set themes then []
            else [(Warn, ''Invalid theme: '' @ ToString (currentTheme_main s)
                           @ '', defaulting to auto'')])
         @ (if setItem_throws s then [(Warn, ''Could not store theme preference'')] else [])"
      "prefers_dark s1 = prefers_dark s" "listeners_main s1 = listeners_main s"
      "getItem_throws s1 = getItem_throws s" "setItem_throws s1 = setItem_throws s"
    using applyTheme_main_effect [of "currentTheme_main s" False s] by blast
  show ?thesis
    by (simp add: init_main_def a f console_log_def getActualTheme_main_def Let_def)
qed

lemma getStoredTheme_main_eq:
  "getStoredTheme_main s =
     Inr (if getItem_throws s
          then (JStr ''auto'',
                console_warn ''localStorage not available, defaulting to auto theme'' s)
          else (case items s storageKey of
                  None \<Rightarrow> JStr ''auto''
                | Some v \<Rightarrow> if v = [] then JStr ''auto'' else JStr v, s))"
  by (simp add: getStoredTheme_main_def localStorage_getItem_def js_or_def split: option.splits)

lemma fire_listener_main:
  "fire n (listener_main b) s =
     Inr (if n = 0 \<or> currentTheme_main s \<noteq> JStr ''auto'' then s
          else s\<lparr>data_theme := Some (if b then ''dark'' else ''light'')\<rparr>)"
  by (induction n arbitrary: s)
     (simp_all add: listener_main_def updateDocumentTheme_main_def setAttribute_data_theme_def)

lemma systemChange_main_eq:
  "systemChange_main b s =
     Inr (if listeners_main s = 0 \<or> currentTheme_main s \<noteq> JStr ''auto''
          then s\<lparr>prefers_dark := b\<rparr>
          else s\<lparr>prefers_dark := b, data_theme := Some (if b then ''dark'' else ''light'')\<rparr>)"
  by (simp add: systemChange_main_def fire_listener_main)

lemma cycleTheme_main_eq:
  "cycleTheme_main s =
     setTheme_main
       (if currentTheme_main s = JStr ''light'' then JStr ''dark''
        else if currentTheme_main s = JStr ''dark'' then JStr ''auto''
        else JStr ''light'') s"
  by (simp add: cycleTheme_main_def setTheme_main_def next_of_theme Let_def)

lemma cycleTheme_part3_eq:
  "cycleTheme_part3 s =
     setTheme_part3
       (if currentTheme_part3 s = JStr ''light'' then JStr ''dark''
        else if currentTheme_part3 s = JStr ''dark'' then JStr ''auto''
        else JStr ''light'') s"
  by (simp add: cycleTheme_part3_def setTheme_part3_def next_of_theme Let_def in_themes)

lemma applyTheme_main_total: "\<exists>s'. applyTheme_main t a s = Inr s'"
  using applyTheme_main_effect [of t a s] by blast

lemma setTheme_main_total: "\<exists>s'. setTheme_main t s = Inr s'"
  by (simp add: setTheme_main_def applyTheme_main_total)

lemma cycleTheme_main_total: "\<exists>s'. cycleTheme_main s = Inr s'"
  by (simp add: cycleTheme_main_eq setTheme_main_total)

lemma init_main_total: "\<exists>s'. init_main s = Inr s'"
  using init_main_effect [of s] by blast

lemma call_main_total: "\<exists>v s'. call_main a s = Inr (v, s')"
proof (cases a)
  case Init
  obtain s1 where "init_main s = Inr s1" using init_main_total by blast
  with Init show ?thesis by simp
next
  case (SetTheme v)
  obtain s1 where "setTheme_main v s = Inr s1" using setTheme_main_total by blast
  with SetTheme show ?thesis by simp
next
  case CycleTheme
  obtain s1 where "cycleTheme_main s = Inr s1" using cycleTheme_main_total by blast
  with CycleTheme show ?thesis by simp
next
  case GetTheme
  then show ?thesis by simp
next
  case GetEffective
  then show ?thesis by simp
next
  case (SystemChange b)
  then show ?thesis by (simp add: systemChange_main_eq)
qed

lemma run_main_total: "\<exists>s'. run_main as s = Inr s'"
proof (induction as arbitrary: s)
  case Nil
  show ?case by simp
next
  case (Cons a as)
  obtain v s1 where "call_main a s = Inr (v, s1)" using call_main_total by blast
  with Cons show ?case by simp
qed

lemma run_main_preserves:
  assumes step: "\<And>a s v s'. P s \<Longrightarrow> call_main a s = Inr (v, s') \<Longrightarrow> P s'"
    and "P s" and "run_main as s = Inr s'"
  shows "P s'"
  using assms(2,3)
proof (induction as arbitrary: s)
  case Nil
  then show ?case by simp
next
  case (Cons a as)
  obtain v s1 where c: "call_main a s = Inr (v, s1)" using call_main_total by blast
  with Cons.prems have "P s1" "run_main as s1 = Inr s'" by (auto dest: step)
  then show ?case by (rule Cons.IH)
qed

lemma getStoredTheme_part3_eq:
  "getStoredTheme_part3 s =
     Inr (if getItem_throws s
          then (JNull, console_warn ''Failed to access localStorage:'' s)
          else (case items s storageKey of None \<Rightarrow> JNull | Some v \<Rightarrow> JStr v, s))"
  by (simp add: getStoredTheme_part3_def localStorage_getItem_def)

lemma applyTheme_part3_total: "\<exists>s'. applyTheme_part3 t a s = Inr s'"
  using applyTheme_part3_effect [of t a s] by blast

lemma setTheme_part3_total: "\<exists>s'. setTheme_part3 t s = Inr s'"
  by (simp add: setTheme_part3_def applyTheme_part3_total)

lemma cycleTheme_part3_total: "\<exists>s'. cycleTheme_part3 s = Inr s'"
  by (simp add: cycleTheme_part3_eq setTheme_part3_total)

lemma init_part3_effect:
  "\<exists>s'. init_part3 s = Inr s' \<and>
     currentTheme_part3 s' =
       (if getItem_throws s then JStr ''auto''
        else (case items s storageKey of
                None \<Rightarrow> JStr ''auto''
              | Some v \<Rightarrow> if v = [] then JStr ''auto'' else JStr v)) \<and>
     systemTheme_part3 s' = (if prefers_dark s then JStr ''dark'' else JStr ''light'') \<and>
     data_theme s' =
       Some (if currentTheme_part3 s' = JStr ''auto''
             then ToString (js_or (systemTheme_part3 s) (JStr ''light''))
             else ToString (currentTheme_part3 s')) \<and>
     dispatched s' =
       dispatched s
       @ [ThemeChange_part3 (currentTheme_part3 s')
            (if currentTheme_part3 s' = JStr ''auto''
             then js_or (systemTheme_part3 s) (JStr ''light'')
             else currentTheme_part3 s')
            (systemTheme_part3 s)] \<and>
     items s' =
       (if setItem_throws s then items s
        else (items s)(storageKey \<mapsto> ToString (currentTheme_part3 s'))) \<and>
     console s' =
       console s
       @ (if getItem_throws s then [(Warn, ''Failed to access localStorage:'')] else [])
       @ (if setItem_throws s then [(Warn, ''Failed to store theme:'')] else []) \<and>
     prefers_dark s' = prefers_dark s \<and> listeners_part3 s' = Suc (listeners_part3 s) \<and>
     getItem_throws s' = getItem_throws s \<and> setItem_throws s' = setItem_throws s"
proof -
  define t where "t =
     (if getItem_throws s then JStr ''auto''
      else (case items s storageKey of
              None \<Rightarrow> JStr ''auto''
            | Some v \<Rightarrow> if v = [] then JStr ''auto'' else JStr v))"
  define s2 where "s2 =
     (if getItem_throws s then console_warn ''Failed to access localStorage:'' s else s)
       \<lparr>currentTheme_part3 := t\<rparr>"
  have i: "init_part3 s =
     then_do (applyTheme_part3 t False s2) (\<lambda>s3.
       Inr (setupSystemThemeListener_part3 (detectSystemTheme_part3 s3)))"
    by (simp add: init_part3_def getStoredTheme_part3_eq defaultTheme_def js_or_def
        t_def s2_def Let_def split: option.splits)
  obtain s3 where a: "applyTheme_part3 t False s2 = Inr s3"
    and f: "currentTheme_part3 s3 = t" "systemTheme_part3 s3 = systemTheme_part3 s2"
      "data_theme s3 = Some (ToString (getAppliedTheme_part3 s3))"
      "dispatched s3 =
         dispatched s2 @ [ThemeChange_part3 t (getAppliedTheme_part3 s3) (systemTheme_part3 s2)]"
      "items s3 =
         (if setItem_throws s2 then items s2 else (items s2)(storageKey \<mapsto> ToString t))"
      "console s3 =
         console s2 @ (if setItem_throws s2 then [(Warn, ''Failed to store theme:'')] else [])"
      "prefers_dark s3 = prefers_dark s2" "listeners_part3 s3 = listeners_part3 s2"
      "getItem_throws s3 = getItem_throws s2" "setItem_throws s3 = setItem_throws s2"
    using applyTheme_part3_effect [of t False s2] by blast
  have g: "getAppliedTheme_part3 s3 =
     (if t = JStr ''auto'' then js_or (systemTheme_part3 s) (JStr ''light'') else t)"
    by (simp add: getAppliedTheme_part3_def f s2_def console_warn_def)
  show ?thesis
    unfolding i a t_def [symmetric]
    by (simp add: f g s2_def console_warn_def detectSystemTheme_part3_def
        setupSystemThemeListener_part3_def)
qed

lemma init_part3_total: "\<exists>s'. init_part3 s = Inr s'"
  using init_part3_effect [of s] by blast

lemma listener_part3_total: "\<exists>s'. listener_part3 b s = Inr s'"
  by (simp add: listener_part3_def applyTheme_part3_total Let_def)

lemma systemChange_part3_total: "\<exists>s'. systemChange_part3 b s = Inr s'"
  unfolding systemChange_part3_def by (rule fire_total) (rule listener_part3_total)

lemma fire_listener_part3_not_auto:
  "currentTheme_part3 s \<noteq> JStr ''auto'' \<Longrightarrow>
   fire n (listener_part3 b) s =
     Inr (if n = 0 then s
          else s\<lparr>systemTheme_part3 := (if b then JStr ''dark'' else JStr ''light'')\<rparr>)"
  by (induction n arbitrary: s) (simp_all add: listener_part3_def Let_def)

lemma call_part3_total: "\<exists>v s'. call_part3 a s = Inr (v, s')"
proof (cases a)
  case Init
  obtain s1 where "init_part3 s = Inr s1" using init_part3_total by blast
  with Init show ?thesis by simp
next
  case (SetTheme v)
  obtain s1 where "setTheme_part3 v s = Inr s1" using setTheme_part3_total by blast
  with SetTheme show ?thesis by simp
next
  case CycleTheme
  obtain s1 where "cycleTheme_part3 s = Inr s1" using cycleTheme_part3_total by blast
  with CycleTheme show ?thesis by simp
next
  case GetTheme
  then show ?thesis by simp
next
  case GetEffective
  then show ?thesis by simp
next
  case (SystemChange b)
  obtain s1 where "systemChange_part3 b s = Inr s1" using systemChange_part3_total by blast
  with SystemChange show ?thesis by simp
qed

lemma run_part3_total: "\<exists>s'. run_part3 as s = Inr s'"
proof (induction as arbitrary: s)
  case Nil
  show ?case by simp
next
  case (Cons a as)
  obtain v s1 where "call_part3 a s = Inr (v, s1)" using call_part3_total by blast
  with Cons show ?case by simp
qed

lemma run_part3_preserves:
  assumes step: "\<And>a s v s'. P s \<Longrightarrow> call_part3 a s = Inr (v, s') \<Longrightarrow> P s'"
    and "P s" and "run_part3 as s = Inr s'"
  shows "P s'"
  using assms(2,3)
proof (induction as arbitrary: s)
  case Nil
  then show ?case by simp
next
  case (Cons a as)
  obtain v s1 where c: "call_part3 a s = Inr (v, s1)" using call_part3_total by blast
  with Cons.prems have "P s1" "run_part3 as s1 = Inr s'" by (auto dest: step)
  then show ?case by (rule Cons.IH)
qed

section \<open>Cycling through the themes\<close>

lemma cycleTheme_main_next:
  "\<exists>s'. cycleTheme_main s = Inr s' \<and>
     currentTheme_main s' =
       (if currentTheme_main s = JStr ''light'' then JStr ''dark''
        else if currentTheme_main s = JStr ''dark'' then JStr ''auto''
        else JStr ''light'')"
  using applyTheme_main_effect
    [of "if currentTheme_main s = JStr ''light'' then JStr ''dark''
         else if currentTheme_main s = JStr ''dark'' then JStr ''auto''
         else JStr ''light''" True s]
  by (auto simp: cycleTheme_main_eq setTheme_main_def in_themes)

lemma cycleTheme_part3_next:
  "\<exists>s'. cycleTheme_part3 s = Inr s' \<and>
     currentTheme_part3 s' =
       (if currentTheme_part3 s = JStr ''light'' then JStr ''dark''
        else if currentTheme_part3 s = JStr ''dark'' then JStr ''auto''
        else JStr ''light'')"
  using applyTheme_part3_effect
    [of "if currentTheme_part3 s = JStr ''light'' then JStr ''dark''
         else if currentTheme_part3 s = JStr ''dark'' then JStr ''auto''
         else JStr ''light''" True s]
  by (auto simp: cycleTheme_part3_eq setTheme_part3_def in_themes)

lemma cycle3_main:
  assumes "currentTheme_main s \<in> set themes"
  shows "\<exists>s3. run_main [CycleTheme, CycleTheme, CycleTheme] s = Inr s3 \<and>
           currentTheme_main s3 = currentTheme_main s"
proof -
  obtain s1 where 1: "cycleTheme_main s = Inr s1"
    "currentTheme_main s1 =
       (if currentTheme_main s = JStr ''light'' then JStr ''dark''
        else if currentTheme_main s = JStr ''dark'' then JStr ''auto''
        else JStr ''light'')"
    using cycleTheme_main_next [of s] by blast
  obtain s2 where 2: "cycleTheme_main s1 = Inr s2"
    "currentTheme_main s2 =
       (if currentTheme_main s1 = JStr ''light'' then JStr ''dark''
        else if currentTheme_main s1 = JStr ''dark'' then JStr ''auto''
        else JStr ''light'')"
    using cycleTheme_main_next [of s1] by blast
  obtain s3 where 3: "cycleTheme_main s2 = Inr s3"
    "currentTheme_main s3 =
       (if currentTheme_main s2 = JStr ''light'' then JStr ''dark''
        else if currentTheme_main s2 = JStr ''dark'' then JStr ''auto''
        else JStr ''light'')"
    using cycleTheme_main_next [of s2] by blast
  have "run_main [CycleTheme, CycleTheme, CycleTheme] s = Inr s3"
    by (simp add: 1 2 3)
  moreover have "currentTheme_main s3 = currentTheme_main s"
    using assms by (auto simp: 1 2 3 in_themes)
  ultimately show ?thesis by blast
qed

lemma cycle3_part3:
  assumes "currentTheme_part3 s \<in> set themes"
  shows "\<exists>s3. run_part3 [CycleTheme, CycleTheme, CycleTheme] s = Inr s3 \<and>
           currentTheme_part3 s3 = currentTheme_part3 s"
proof -
  obtain s1 where 1: "cycleTheme_part3 s = Inr s1"
    "currentTheme_part3 s1 =
       (if currentTheme_part3 s = JStr ''light'' then JStr ''dark''
        else if currentTheme_part3 s = JStr ''dark'' then JStr ''auto''
        else JStr ''light'')"
    using cycleTheme_part3_next [of s] by blast
  obtain s2 where 2: "cycleTheme_part3 s1 = Inr s2"
    "currentTheme_part3 s2 =
       (if currentTheme_part3 s1 = JStr ''light'' then JStr ''dark''
        else if currentTheme_part3 s1 = JStr ''dark'' then JStr ''auto''
        else JStr ''light'')"
    using cycleTheme_part3_next [of s1] by blast
  obtain s3 where 3: "cycleTheme_part3 s2 = Inr s3"
    "currentTheme_part3 s3 =
       (if currentTheme_part3 s2 = JStr ''light'' then JStr ''dark''
        else if currentTheme_part3 s2 = JStr ''dark'' then JStr ''auto''
        else JStr ''light'')"
    using cycleTheme_part3_next [of s2] by blast
  have "run_part3 [CycleTheme, CycleTheme, CycleTheme] s = Inr s3"
    by (simp add: 1 2 3)
  moreover have "currentTheme_part3 s3 = currentTheme_part3 s"
    using assms by (auto simp: 1 2 3 in_themes)
  ultimately show ?thesis by blast
qed

lemma cycleTheme_main_step:
  "\<exists>s1. cycleTheme_main s = Inr s1 \<and>
     currentTheme_main s1 =
       (if currentTheme_main s = JStr ''light'' then JStr ''dark''
        else if currentTheme_main s = JStr ''dark'' then JStr ''auto''
        else JStr ''light'') \<and>
     data_theme s1 = Some (ToString (getActualTheme_main s1)) \<and>
     dispatched s1 =
       dispatched s @ [ThemeChange_main (currentTheme_main s1) (getActualTheme_main s1)] \<and>
     items s1 =
       (if setItem_throws s then items s
        else (items s)(storageKey \<mapsto> ToString (currentTheme_main s1)))"
proof -
  define t where "t =
       (if currentTheme_main s = JStr ''light'' then JStr ''dark''
        else if currentTheme_main s = JStr ''dark'' then JStr ''auto''
        else JStr ''light'')"
  have v: "t \<in> set themes" by (simp add: t_def in_themes)
  obtain s1 where s1: "applyTheme_main t True s = Inr s1"
    "currentTheme_main s1 = (if t \<in> set themes then t else JStr ''auto'')"
    "data_theme s1 = Some (ToString (getActualTheme_main s1))"
    "dispatched s1 =
       dispatched s @ [ThemeChange_main (currentTheme_main s1) (getActualTheme_main s1)]"
    "items s1 =
       (if setItem_throws s then items s
        else (items s)(storageKey \<mapsto> ToString (currentTheme_main s1)))"
    using applyTheme_main_effect [of t True s] by blast
  have c: "cycleTheme_main s = Inr s1"
    by (simp add: cycleTheme_main_eq setTheme_main_def t_def [symmetric] s1(1))
  from s1(2) v have "currentTheme_main s1 = t" by simp
  with c s1(3-5) show ?thesis unfolding t_def by blast
qed

lemma cycleTheme_part3_step:
  "\<exists>p1. cycleTheme_part3 p = Inr p1 \<and>
     currentTheme_part3 p1 =
       (if currentTheme_part3 p = JStr ''light'' then JStr ''dark''
        else if currentTheme_part3 p = JStr ''dark'' then JStr ''auto''
        else JStr ''light'') \<and>
     data_theme p1 = Some (ToString (getAppliedTheme_part3 p1)) \<and>
     dispatched p1 =
       dispatched p
       @ [ThemeChange_part3 (currentTheme_part3 p1) (getAppliedTheme_part3 p1)
            (systemTheme_part3 p)] \<and>
     items p1 =
       (if setItem_throws p then items p
        else (items p)(storageKey \<mapsto> ToString (currentTheme_part3 p1)))"
proof -
  define t where "t =
       (if currentTheme_part3 p = JStr ''light'' then JStr ''dark''
        else if currentTheme_part3 p = JStr ''dark'' then JStr ''auto''
        else JStr ''light'')"
  have v: "t \<in> set themes" by (simp add: t_def in_themes)
  obtain p1 where p1: "applyTheme_part3 t True p = Inr p1"
    "currentTheme_part3 p1 = t"
    "data_theme p1 = Some (ToString (getAppliedTheme_part3 p1))"
    "dispatched p1 =
       dispatched p @ [ThemeChange_part3 t (getAppliedTheme_part3 p1) (systemTheme_part3 p)]"
    "items p1 =
       (if setItem_throws p then items p else (items p)(storageKey \<mapsto> ToString t))"
    using applyTheme_part3_effect [of t True p] by blast
  have c: "cycleTheme_part3 p = Inr p1"
    using v by (simp add: cycleTheme_part3_eq setTheme_part3_def t_def [symmetric] p1(1))
  from p1(4,5) have "dispatched p1 =
       dispatched p
       @ [ThemeChange_part3 (currentTheme_part3 p1) (getAppliedTheme_part3 p1)
            (systemTheme_part3 p)]"
    "items p1 =
       (if setItem_throws p then items p
        else (items p)(storageKey \<mapsto> ToString (currentTheme_part3 p1)))"
    by (simp_all add: p1(2))
  with c p1(2,3) show ?thesis unfolding t_def by blast
qed

text \<open>
  Claim C4. In both managers \<^verbatim>\<open>cycleTheme()\<close> is \<^verbatim>\<open>setTheme\<close> of the theme that
  follows the current one in the order light, dark, auto, light. One call returns
  normally and leaves that next theme in \<^verbatim>\<open>currentTheme\<close>, with the effective theme
  applied to \<^verbatim>\<open>data-theme\<close>, one \<^verbatim>\<open>themechange\<close> event dispatched and the theme
  written to the storage unless the write is refused. Three calls in a row starting from
  any of the three themes bring \<^verbatim>\<open>currentTheme\<close> back to where it was.
\<close>

theorem C4_cycle_order:
  "(currentTheme_main s = JStr ''light'' \<longrightarrow>
      cycleTheme_main s = setTheme_main (JStr ''dark'') s \<and>
      (\<exists>s1. cycleTheme_main s = Inr s1 \<and> currentTheme_main s1 = JStr ''dark'')) \<and>
   (currentTheme_main s = JStr ''dark'' \<longrightarrow>
      cycleTheme_main s = setTheme_main (JStr ''auto'') s \<and>
      (\<exists>s1. cycleTheme_main s = Inr s1 \<and> currentTheme_main s1 = JStr ''auto'')) \<and>
   (currentTheme_main s = JStr ''auto'' \<longrightarrow>
      cycleTheme_main s = setTheme_main (JStr ''light'') s \<and>
      (\<exists>s1. cycleTheme_main s = Inr s1 \<and> currentTheme_main s1 = JStr ''light'')) \<and>
   (\<exists>s1. cycleTheme_main s = Inr s1 \<and>
      currentTheme_main s1 =
        (if currentTheme_main s = JStr ''light'' then JStr ''dark''
         else if currentTheme_main s = JStr ''dark'' then JStr ''auto''
         else JStr ''light'') \<and>
      data_theme s1 = Some (ToString (getActualTheme_main s1)) \<and>
      dispatched s1 =
        dispatched s @ [ThemeChange_main (currentTheme_main s1) (getActualTheme_main s1)] \<and>
      items s1 =
        (if setItem_throws s then items s
         else (items s)(storageKey \<mapsto> ToString (currentTheme_main s1)))) \<and>
   (currentTheme_main s \<in> set themes \<longrightarrow>
      (\<exists>s3. run_main [CycleTheme, CycleTheme, CycleTheme] s = Inr s3 \<and>
            currentTheme_main s3 = currentTheme_main s)) \<and>
   (currentTheme_part3 p = JStr ''light'' \<longrightarrow>
      cycleTheme_part3 p = setTheme_part3 (JStr ''dark'') p \<and>
      (\<exists>p1. cycleTheme_part3 p = Inr p1 \<and> currentTheme_part3 p1 = JStr ''dark'')) \<and>
   (currentTheme_part3 p = JStr ''dark'' \<longrightarrow>
      cycleTheme_part3 p = setTheme_part3 (JStr ''auto'') p \<and>
      (\<exists>p1. cycleTheme_part3 p = Inr p1 \<and> currentTheme_part3 p1 = JStr ''auto'')) \<and>
   (currentTheme_part3 p = JStr ''auto'' \<longrightarrow>
      cycleTheme_part3 p = setTheme_part3 (JStr ''light'') p \<and>
      (\<exists>p1. cycleTheme_part3 p = Inr p1 \<and> currentTheme_part3 p1 = JStr ''light'')) \<and>
   (\<exists>p1. cycleTheme_part3 p = Inr p1 \<and>
      currentTheme_part3 p1 =
        (if currentTheme_part3 p = JStr ''light'' then JStr ''dark''
         else if currentTheme_part3 p = JStr ''dark'' then JStr ''auto''
         else JStr ''light'') \<and>
      data_theme p1 = Some (ToString (getAppliedTheme_part3 p1)) \<and>
      dispatched p1 =
        dispatched p
        @ [ThemeChange_part3 (currentTheme_part3 p1) (getAppliedTheme_part3 p1)
             (systemTheme_part3 p)] \<and>
      items p1 =
        (if setItem_throws p then items p
         else (items p)(storageKey \<mapsto> ToString (currentTheme_part3 p1)))) \<and>
   (currentTheme_part3 p \<in> set themes \<longrightarrow>
      (\<exists>p3. run_part3 [CycleTheme, CycleTheme, CycleTheme] p = Inr p3 \<and>
            currentTheme_part3 p3 = currentTheme_part3 p))"
proof -
  have m: "currentTheme_main s = JStr ''light'' \<longrightarrow>
      cycleTheme_main s = setTheme_main (JStr ''dark'') s \<and>
      (\<exists>s1. cycleTheme_main s = Inr s1 \<and> currentTheme_main s1 = JStr ''dark'')"
    "currentTheme_main s = JStr ''dark'' \<longrightarrow>
      cycleTheme_main s = setTheme_main (JStr ''auto'') s \<and>
      (\<exists>s1. cycleTheme_main s = Inr s1 \<and> currentTheme_main s1 = JStr ''auto'')"
    "currentTheme_main s = JStr ''auto'' \<longrightarrow>
      cycleTheme_main s = setTheme_main (JStr ''light'') s \<and>
      (\<exists>s1. cycleTheme_main s = Inr s1 \<and> currentTheme_main s1 = JStr ''light'')"
    using cycleTheme_main_next [of s] by (auto simp: cycleTheme_main_eq)
  have q: "currentTheme_part3 p = JStr ''light'' \<longrightarrow>
      cycleTheme_part3 p = setTheme_part3 (JStr ''dark'') p \<and>
      (\<exists>p1. cycleTheme_part3 p = Inr p1 \<and> currentTheme_part3 p1 = JStr ''dark'')"
    "currentTheme_part3 p = JStr ''dark'' \<longrightarrow>
      cycleTheme_part3 p = setTheme_part3 (JStr ''auto'') p \<and>
      (\<exists>p1. cycleTheme_part3 p = Inr p1 \<and> currentTheme_part3 p1 = JStr ''auto'')"
    "currentTheme_part3 p = JStr ''auto'' \<longrightarrow>
      cycleTheme_part3 p = setTheme_part3 (JStr ''light'') p \<and>
      (\<exists>p1. cycleTheme_part3 p = Inr p1 \<and> currentTheme_part3 p1 = JStr ''light'')"
    using cycleTheme_part3_next [of p] by (auto simp: cycleTheme_part3_eq)
  have m3: "currentTheme_main s \<in> set themes \<longrightarrow>
      (\<exists>s3. run_main [CycleTheme, CycleTheme, CycleTheme] s = Inr s3 \<and>
            currentTheme_main s3 = currentTheme_main s)"
    using cycle3_main [of s] by blast
  have q3: "currentTheme_part3 p \<in> set themes \<longrightarrow>
      (\<exists>p3. run_part3 [CycleTheme, CycleTheme, CycleTheme] p = Inr p3 \<and>
            currentTheme_part3 p3 = currentTheme_part3 p)"
    using cycle3_part3 [of p] by blast
  from m q m3 q3 cycleTheme_main_step [of s] cycleTheme_part3_step [of p]
  show ?thesis by (intro conjI)
qed

text \<open>
  C4 for managers whose current theme is light, dark and auto: each hypothesis holds at
  one of them, and one cycle leaves dark, auto and light.
\<close>

theorem C4_cycle_order_witness:
  "currentTheme_main light_main = JStr ''light'' \<and>
   currentTheme_main light_main \<in> set themes \<and>
   cycleTheme_main light_main = setTheme_main (JStr ''dark'') light_main \<and>
   map_sum id currentTheme_main (cycleTheme_main light_main) = Inr (JStr ''dark'') \<and>
   map_sum id currentTheme_main
     (run_main [CycleTheme, CycleTheme, CycleTheme] light_main) = Inr (JStr ''light'') \<and>
   cycleTheme_main (light_main\<lparr>currentTheme_main := JStr ''dark''\<rparr>) =
     setTheme_main (JStr ''auto'') (light_main\<lparr>currentTheme_main := JStr ''dark''\<rparr>) \<and>
   map_sum id currentTheme_main
     (cycleTheme_main (light_main\<lparr>currentTheme_main := JStr ''dark''\<rparr>)) =
     Inr (JStr ''auto'') \<and>
   cycleTheme_main (light_main\<lparr>currentTheme_main := JStr ''auto''\<rparr>) =
     setTheme_main (JStr ''light'') (light_main\<lparr>currentTheme_main := JStr ''auto''\<rparr>) \<and>
   map_sum id currentTheme_main
     (cycleTheme_main (light_main\<lparr>currentTheme_main := JStr ''auto''\<rparr>)) =
     Inr (JStr ''light'') \<and>
   currentTheme_part3 light_part3 = JStr ''light'' \<and>
   currentTheme_part3 light_part3 \<in> set themes \<and>
   cycleTheme_part3 light_part3 = setTheme_part3 (JStr ''dark'') light_part3 \<and>
   map_sum id currentTheme_part3 (cycleTheme_part3 light_part3) = Inr (JStr ''dark'') \<and>
   map_sum id currentTheme_part3
     (run_part3 [CycleTheme, CycleTheme, CycleTheme] light_part3) = Inr (JStr ''light'') \<and>
   cycleTheme_part3 (light_part3\<lparr>currentTheme_part3 := JStr ''dark''\<rparr>) =
     setTheme_part3 (JStr ''auto'') (light_part3\<lparr>currentTheme_part3 := JStr ''dark''\<rparr>) \<and>
   map_sum id currentTheme_part3
     (cycleTheme_part3 (light_part3\<lparr>currentTheme_part3 := JStr ''dark''\<rparr>)) =
     Inr (JStr ''auto'') \<and>
   cycleTheme_part3 (light_part3\<lparr>currentTheme_part3 := JStr ''auto''\<rparr>) =
     setTheme_part3 (JStr ''light'') (light_part3\<lparr>currentTheme_part3 := JStr ''auto''\<rparr>) \<and>
   map_sum id currentTheme_part3
     (cycleTheme_part3 (light_part3\<lparr>currentTheme_part3 := JStr ''auto''\<rparr>)) =
     Inr (JStr ''light'')"
proof -
  have l: "currentTheme_main light_main = JStr ''light''"
    "currentTheme_part3 light_part3 = JStr ''light''"
    by (simp_all add: light_main_def light_part3_def)
  have t: "JStr ''light'' \<in> set themes" by (simp add: in_themes)
  note L = C4_cycle_order [of light_main light_part3]
  note D = C4_cycle_order [of "light_main\<lparr>currentTheme_main := JStr ''dark''\<rparr>"
        "light_part3\<lparr>currentTheme_part3 := JStr ''dark''\<rparr>"]
  note A = C4_cycle_order [of "light_main\<lparr>currentTheme_main := JStr ''auto''\<rparr>"
        "light_part3\<lparr>currentTheme_part3 := JStr ''auto''\<rparr>"]
  obtain s1 s3 p1 p3 where 1:
    "cycleTheme_main light_main = setTheme_main (JStr ''dark'') light_main"
    "cycleTheme_main light_main = Inr s1" "currentTheme_main s1 = JStr ''dark''"
    "run_main [CycleTheme, CycleTheme, CycleTheme] light_main = Inr s3"
    "currentTheme_main s3 = currentTheme_main light_main"
    "cycleTheme_part3 light_part3 = setTheme_part3 (JStr ''dark'') light_part3"
    "cycleTheme_part3 light_part3 = Inr p1" "currentTheme_part3 p1 = JStr ''dark''"
    "run_part3 [CycleTheme, CycleTheme, CycleTheme] light_part3 = Inr p3"
    "currentTheme_part3 p3 = currentTheme_part3 light_part3"
    using L l t by auto
  obtain s2 p2 where 2:
    "cycleTheme_main (light_main\<lparr>currentTheme_main := JStr ''dark''\<rparr>) =
       setTheme_main (JStr ''auto'') (light_main\<lparr>currentTheme_main := JStr ''dark''\<rparr>)"
    "cycleTheme_main (light_main\<lparr>currentTheme_main := JStr ''dark''\<rparr>) = Inr s2"
    "currentTheme_main s2 = JStr ''auto''"
    "cycleTheme_part3 (light_part3\<lparr>currentTheme_part3 := JStr ''dark''\<rparr>) =
       setTheme_part3 (JStr ''auto'') (light_part3\<lparr>currentTheme_part3 := JStr ''dark''\<rparr>)"
    "cycleTheme_part3 (light_part3\<lparr>currentTheme_part3 := JStr ''dark''\<rparr>) = Inr p2"
    "currentTheme_part3 p2 = JStr ''auto''"
    using D by auto
  obtain s4 p4 where 3:
    "cycleTheme_main (light_main\<lparr>currentTheme_main := JStr ''auto''\<rparr>) =
       setTheme_main (JStr ''light'') (light_main\<lparr>currentTheme_main := JStr ''auto''\<rparr>)"
    "cycleTheme_main (light_main\<lparr>currentTheme_main := JStr ''auto''\<rparr>) = Inr s4"
    "currentTheme_main s4 = JStr ''light''"
    "cycleTheme_part3 (light_part3\<lparr>currentTheme_part3 := JStr ''auto''\<rparr>) =
       setTheme_part3 (JStr ''light'') (light_part3\<lparr>currentTheme_part3 := JStr ''auto''\<rparr>)"
    "cycleTheme_part3 (light_part3\<lparr>currentTheme_part3 := JStr ''auto''\<rparr>) = Inr p4"
    "currentTheme_part3 p4 = JStr ''light''"
    using A by auto
  have a: "map_sum id currentTheme_main (cycleTheme_main light_main) = Inr (JStr ''dark'')"
    "map_sum id currentTheme_main
       (run_main [CycleTheme, CycleTheme, CycleTheme] light_main) = Inr (JStr ''light'')"
    "map_sum id currentTheme_part3 (cycleTheme_part3 light_part3) = Inr (JStr ''dark'')"
    "map_sum id currentTheme_part3
       (run_part3 [CycleTheme, CycleTheme, CycleTheme] light_part3) = Inr (JStr ''light'')"
    using 1(2-5,7-10) l by (simp_all del: run_main.simps run_part3.simps)
  have b: "map_sum id currentTheme_main
       (cycleTheme_main (light_main\<lparr>currentTheme_main := JStr ''dark''\<rparr>)) =
       Inr (JStr ''auto'')"
    "map_sum id currentTheme_part3
       (cycleTheme_part3 (light_part3\<lparr>currentTheme_part3 := JStr ''dark''\<rparr>)) =
       Inr (JStr ''auto'')"
    using 2(2,3,5,6) by simp_all
  have c: "map_sum id currentTheme_main
       (cycleTheme_main (light_main\<lparr>currentTheme_main := JStr ''auto''\<rparr>)) =
       Inr (JStr ''light'')"
    "map_sum id currentTheme_part3
       (cycleTheme_part3 (light_part3\<lparr>currentTheme_part3 := JStr ''auto''\<rparr>)) =
       Inr (JStr ''light'')"
    using 3(2,3,5,6) by simp_all
  have m: "currentTheme_main light_main \<in> set themes"
    "currentTheme_part3 light_part3 \<in> set themes"
    using l t by simp_all
  from l m 1(1,6) 2(1,4) 3(1,4) a b c show ?thesis by (intro conjI)
qed

text \<open>
  Claim C10. When \<^verbatim>\<open>currentTheme\<close> is not one of the three themes,
  \<^verbatim>\<open>indexOf\<close> gives \<open>-1\<close> and \<^verbatim>\<open>cycleTheme()\<close> sets it to light; so after one call
  from any state at all \<^verbatim>\<open>currentTheme\<close> is one of the three themes.
\<close>

theorem C10_cycle_from_invalid:
  "(currentTheme_main s \<notin> set themes \<longrightarrow>
      (\<exists>s'. cycleTheme_main s = Inr s' \<and> currentTheme_main s' = JStr ''light'')) \<and>
   (\<exists>s'. cycleTheme_main s = Inr s' \<and> currentTheme_main s' \<in> set themes) \<and>
   (currentTheme_part3 p \<notin> set themes \<longrightarrow>
      (\<exists>p'. cycleTheme_part3 p = Inr p' \<and> currentTheme_part3 p' = JStr ''light'')) \<and>
   (\<exists>p'. cycleTheme_part3 p = Inr p' \<and> currentTheme_part3 p' \<in> set themes)"
  using cycleTheme_main_next [of s] cycleTheme_part3_next [of p]
  by (auto simp: in_themes)

text \<open>C10 at a current theme \<^verbatim>\<open>'blue'\<close> (main.js) and \<^verbatim>\<open>null\<close> (part_003).\<close>

theorem C10_cycle_from_invalid_witness:
  "currentTheme_main (fresh_main\<lparr>currentTheme_main := JStr ''blue''\<rparr>) \<notin> set themes \<and>
   map_sum id currentTheme_main
     (cycleTheme_main (fresh_main\<lparr>currentTheme_main := JStr ''blue''\<rparr>)) =
     Inr (JStr ''light'') \<and>
   currentTheme_part3 (fresh_part3\<lparr>currentTheme_part3 := JNull\<rparr>) \<notin> set themes \<and>
   map_sum id currentTheme_part3
     (cycleTheme_part3 (fresh_part3\<lparr>currentTheme_part3 := JNull\<rparr>)) =
     Inr (JStr ''light'')"
  using C10_cycle_from_invalid [of "fresh_main\<lparr>currentTheme_main := JStr ''blue''\<rparr>"
      "fresh_part3\<lparr>currentTheme_part3 := JNull\<rparr>"]
  by (auto simp: in_themes)

section \<open>Setting a theme and reading the effective theme\<close>

lemma applyTheme_part3_frame:
  assumes "applyTheme_part3 t a s = Inr s'"
  shows "currentTheme_part3 s' = t \<and> systemTheme_part3 s' = systemTheme_part3 s \<and>
    prefers_dark s' = prefers_dark s \<and> listeners_part3 s' = listeners_part3 s"
proof -
  obtain s2 where "applyTheme_part3 t a s = Inr s2" "currentTheme_part3 s2 = t"
    "systemTheme_part3 s2 = systemTheme_part3 s" "prefers_dark s2 = prefers_dark s"
    "listeners_part3 s2 = listeners_part3 s"
    using applyTheme_part3_effect [of t a s] by blast
  with assms show ?thesis by simp
qed

lemma setTheme_part3_frame:
  assumes "setTheme_part3 t s = Inr s'"
  shows "systemTheme_part3 s' = systemTheme_part3 s \<and>
    prefers_dark s' = prefers_dark s \<and> listeners_part3 s' = listeners_part3 s"
proof (cases "t \<in> set themes")
  case True
  with assms have "applyTheme_part3 t True s = Inr s'" by (simp add: setTheme_part3_def)
  from applyTheme_part3_frame [OF this] show ?thesis by simp
next
  case False
  with assms show ?thesis by (auto simp: setTheme_part3_def console_warn_def)
qed

lemma listener_part3_frame:
  assumes "listener_part3 b s = Inr s'"
  shows "systemTheme_part3 s' = (if b then JStr ''dark'' else JStr ''light'') \<and>
    prefers_dark s' = prefers_dark s \<and> listeners_part3 s' = listeners_part3 s"
proof (cases "currentTheme_part3 s = JStr ''auto''")
  case True
  with assms have "applyTheme_part3 (JStr ''auto'') True
      (s\<lparr>systemTheme_part3 := (if b then JStr ''dark'' else JStr ''light'')\<rparr>) = Inr s'"
    by (simp add: listener_part3_def Let_def)
  from applyTheme_part3_frame [OF this] show ?thesis by simp
next
  case False
  with assms show ?thesis by (auto simp: listener_part3_def Let_def)
qed

lemma init_part3_frame:
  assumes "init_part3 s = Inr s'"
  shows "systemTheme_part3 s' = (if prefers_dark s then JStr ''dark'' else JStr ''light'') \<and>
    prefers_dark s' = prefers_dark s \<and> listeners_part3 s' = Suc (listeners_part3 s)"
proof -
  obtain s2 where "init_part3 s = Inr s2"
    "systemTheme_part3 s2 = (if prefers_dark s then JStr ''dark'' else JStr ''light'')"
    "prefers_dark s2 = prefers_dark s" "listeners_part3 s2 = Suc (listeners_part3 s)"
    using init_part3_effect [of s] by blast
  with assms show ?thesis by simp
qed

lemma systemChange_part3_tracks:
  assumes "0 < listeners_part3 s" and "systemChange_part3 b s = Inr s'"
  shows "tracks_system s' \<and> prefers_dark s' = b"
proof -
  obtain n where n: "listeners_part3 s = Suc n"
    using assms(1) by (cases "listeners_part3 s") auto
  define Q where "Q = (\<lambda>x::part3_tm. systemTheme_part3 x = (if b then JStr ''dark'' else JStr ''light'') \<and>
    prefers_dark x = b \<and> listeners_part3 x = Suc n)"
  obtain s1 where s1: "listener_part3 b (s\<lparr>prefers_dark := b\<rparr>) = Inr s1"
    using listener_part3_total by blast
  have "Q s1"
    using listener_part3_frame [OF s1] by (simp add: Q_def n)
  moreover have "fire n (listener_part3 b) s1 = Inr s'"
    using assms(2) by (simp add: systemChange_part3_def n s1)
  moreover have "\<And>x x'. Q x \<Longrightarrow> listener_part3 b x = Inr x' \<Longrightarrow> Q x'"
    using listener_part3_frame by (simp add: Q_def)
  ultimately have "Q s'"
    by (rule fire_preserves [where P = Q and f = "listener_part3 b", rotated])
  then show ?thesis by (simp add: Q_def tracks_system_def)
qed

lemma call_part3_tracks:
  assumes "tracks_system s" and "call_part3 a s = Inr (v, s')"
  shows "tracks_system s'"
proof (cases a)
  case Init
  with assms(2) have "init_part3 s = Inr s'"
    by (cases "init_part3 s") auto
  from init_part3_frame [OF this] show ?thesis by (simp add: tracks_system_def)
next
  case (SetTheme t)
  with assms(2) have "setTheme_part3 t s = Inr s'"
    by (cases "setTheme_part3 t s") auto
  from setTheme_part3_frame [OF this] assms(1) show ?thesis by (simp add: tracks_system_def)
next
  case CycleTheme
  with assms(2) have "cycleTheme_part3 s = Inr s'"
    by (cases "cycleTheme_part3 s") auto
  then obtain t where "setTheme_part3 t s = Inr s'" by (simp add: cycleTheme_part3_eq)
  from setTheme_part3_frame [OF this] assms(1) show ?thesis by (simp add: tracks_system_def)
next
  case GetTheme
  with assms show ?thesis by simp
next
  case GetEffective
  with assms show ?thesis by simp
next
  case (SystemChange b)
  with assms(2) have "systemChange_part3 b s = Inr s'"
    by (cases "systemChange_part3 b s") auto
  with assms(1) systemChange_part3_tracks [of s b s'] show ?thesis
    by (simp add: tracks_system_def)
qed

lemma constructor_part3_tracks:
  "\<exists>s'. constructor_part3 w = Inr s' \<and> tracks_system s'"
proof -
  obtain s' where s': "constructor_part3 w = Inr s'"
    using init_part3_total by (auto simp: constructor_part3_def)
  then have "init_part3
      (w\<lparr>currentTheme_part3 := JNull, systemTheme_part3 := JNull, listeners_part3 := 0\<rparr>) =
      Inr s'"
    by (simp add: constructor_part3_def)
  from init_part3_frame [OF this] have "tracks_system s'" by (simp add: tracks_system_def)
  with s' show ?thesis by blast
qed

lemma reachable_part3_tracks:
  "\<exists>p0 p. constructor_part3 w = Inr p0 \<and> run_part3 as p0 = Inr p \<and> tracks_system p"
proof -
  obtain p0 where p0: "constructor_part3 w = Inr p0" "tracks_system p0"
    using constructor_part3_tracks by blast
  obtain p where p: "run_part3 as p0 = Inr p" using run_part3_total by blast
  have "tracks_system p"
    using call_part3_tracks p0(2) p by (rule run_part3_preserves)
  with p0 p show ?thesis by blast
qed

lemma setTheme_main_effective:
  assumes "P \<in> set themes"
  shows "\<exists>s'. then_do (call_main (SetTheme P) s) (\<lambda>(v, s1). call_main GetEffective s1) =
      Inr (if P = JStr ''dark'' \<or> (P = JStr ''auto'' \<and> prefers_dark s)
           then JStr ''dark'' else JStr ''light'', s')"
proof -
  obtain s1 where s1: "applyTheme_main P True s = Inr s1"
    "currentTheme_main s1 = (if P \<in> set themes then P else JStr ''auto'')"
    "prefers_dark s1 = prefers_dark s"
    using applyTheme_main_effect [of P True s] by blast
  from s1(2) assms have c: "currentTheme_main s1 = P" by simp
  show ?thesis
    using assms by (auto simp: setTheme_main_def s1(1,3) c getActualTheme_main_def in_themes)
qed

lemma setTheme_part3_effective:
  assumes "P \<in> set themes" and "tracks_system p"
  shows "\<exists>p'. then_do (call_part3 (SetTheme P) p) (\<lambda>(v, p1). call_part3 GetEffective p1) =
      Inr (if P = JStr ''dark'' \<or> (P = JStr ''auto'' \<and> prefers_dark p)
           then JStr ''dark'' else JStr ''light'', p')"
proof -
  obtain p1 where p1: "applyTheme_part3 P True p = Inr p1"
    using applyTheme_part3_total by blast
  from applyTheme_part3_frame [OF p1] assms show ?thesis
    by (auto simp: setTheme_part3_def p1 getAppliedTheme_part3_def in_themes
        tracks_system_def js_or_def)
qed

text \<open>
  Claim C1. For a theme \<open>P\<close> among light, dark and auto, \<^verbatim>\<open>setTheme(P)\<close> followed by
  \<^verbatim>\<open>getActualTheme()\<close> (main.js, in any state) or \<^verbatim>\<open>getAppliedTheme()\<close> (part_003,
  in any state reached from \<^verbatim>\<open>new ThemeManager()\<close> by any actions) returns dark if
  \<open>P\<close> is dark, or \<open>P\<close> is auto and the browser prefers dark, and light otherwise.
\<close>

theorem C1_setTheme_then_effective:
  assumes "P \<in> set themes"
  shows "(\<exists>s'. then_do (call_main (SetTheme P) s) (\<lambda>(v, s1). call_main GetEffective s1) =
            Inr (if P = JStr ''dark'' \<or> (P = JStr ''auto'' \<and> prefers_dark s)
                 then JStr ''dark'' else JStr ''light'', s')) \<and>
         (\<exists>p0 p. constructor_part3 w = Inr p0 \<and> run_part3 as p0 = Inr p \<and>
            (\<exists>p'. then_do (call_part3 (SetTheme P) p) (\<lambda>(v, p1). call_part3 GetEffective p1) =
               Inr (if P = JStr ''dark'' \<or> (P = JStr ''auto'' \<and> prefers_dark p)
                    then JStr ''dark'' else JStr ''light'', p')))"
proof -
  obtain p0 p where "constructor_part3 w = Inr p0" "run_part3 as p0 = Inr p" "tracks_system p"
    using reachable_part3_tracks by blast
  with setTheme_part3_effective [OF assms, of p] setTheme_main_effective [OF assms, of s]
  show ?thesis by blast
qed

text \<open>
  C1 for auto in a browser that prefers dark: main.js straight after construction,
  part_003 after the colour scheme went to light and back to dark.
\<close>

theorem C1_setTheme_then_effective_witness:
  "JStr ''auto'' \<in> set themes \<and>
   map_sum id fst
     (then_do (call_main (SetTheme (JStr ''auto'')) (fresh_main\<lparr>prefers_dark := True\<rparr>))
        (\<lambda>(v, s1). call_main GetEffective s1)) = Inr (JStr ''dark'') \<and>
   map_sum id fst
     (then_do
        (then_do (constructor_part3 (fresh_part3\<lparr>prefers_dark := True\<rparr>))
           (run_part3 [SystemChange False, SystemChange True]))
        (\<lambda>p. then_do (call_part3 (SetTheme (JStr ''auto'')) p)
           (\<lambda>(v, p1). call_part3 GetEffective p1))) = Inr (JStr ''dark'')"
proof -
  have h: "JStr ''auto'' \<in> set themes" by (simp add: in_themes)
  obtain s' p0 p p' where
    m: "then_do (call_main (SetTheme (JStr ''auto'')) (fresh_main\<lparr>prefers_dark := True\<rparr>))
          (\<lambda>(v, s1). call_main GetEffective s1) =
        Inr (if JStr ''auto'' = JStr ''dark'' \<or>
                (JStr ''auto'' = JStr ''auto'' \<and> prefers_dark (fresh_main\<lparr>prefers_dark := True\<rparr>))
             then JStr ''dark'' else JStr ''light'', s')"
    and c: "constructor_part3 (fresh_part3\<lparr>prefers_dark := True\<rparr>) = Inr p0"
    and r: "run_part3 [SystemChange False, SystemChange True] p0 = Inr p"
    and e: "then_do (call_part3 (SetTheme (JStr ''auto'')) p)
          (\<lambda>(v, p1). call_part3 GetEffective p1) =
        Inr (if JStr ''auto'' = JStr ''dark'' \<or> (JStr ''auto'' = JStr ''auto'' \<and> prefers_dark p)
             then JStr ''dark'' else JStr ''light'', p')"
    using C1_setTheme_then_effective [OF h, of "fresh_main\<lparr>prefers_dark := True\<rparr>"
        "fresh_part3\<lparr>prefers_dark := True\<rparr>" "[SystemChange False, SystemChange True]"]
    by blast
  have pd: "prefers_dark p"
  proof -
    obtain v1 p1 where 1: "call_part3 (SystemChange False) p0 = Inr (v1, p1)"
      using call_part3_total by blast
    obtain v2 p2 where 2: "call_part3 (SystemChange True) p1 = Inr (v2, p2)"
      using call_part3_total by blast
    from r have "p2 = p" by (simp add: 1 2 del: call_part3.simps)
    moreover from 2 have "systemChange_part3 True p1 = Inr p2"
      by (cases "systemChange_part3 True p1") auto
    moreover have "0 < listeners_part3 p1"
      using constructor_part3_tracks [of "fresh_part3\<lparr>prefers_dark := True\<rparr>"] c
        call_part3_tracks [OF _ 1] by (auto simp: tracks_system_def)
    ultimately show ?thesis using systemChange_part3_tracks [of p1 True p2] by simp
  qed
  show ?thesis
    using h by (simp add: m c r e pd del: call_main.simps call_part3.simps run_part3.simps)
qed

section \<open>A change of the colour scheme while the theme is not auto\<close>

lemma systemChange_part3_not_auto:
  assumes "currentTheme_part3 p \<noteq> JStr ''auto''"
  shows "systemChange_part3 b p =
     Inr (if listeners_part3 p = 0 then p\<lparr>prefers_dark := b\<rparr>
          else p\<lparr>prefers_dark := b,
                 systemTheme_part3 := (if b then JStr ''dark'' else JStr ''light'')\<rparr>)"
  using assms by (simp add: systemChange_part3_def fire_listener_part3_not_auto)

text \<open>
  Claim C6. While the current theme is not auto, a change of the colour scheme of the
  browser dispatches no \<^verbatim>\<open>themechange\<close> event and leaves the \<^verbatim>\<open>data-theme\<close>
  attribute, the stored theme, \<^verbatim>\<open>currentTheme\<close>, the console and the effective theme
  as they were, in both managers.
\<close>

theorem C6_systemChange_not_auto:
  "(currentTheme_main s \<noteq> JStr ''auto'' \<longrightarrow>
      (\<exists>s'. call_main (SystemChange b) s = Inr (JUndefined, s') \<and>
         dispatched s' = dispatched s \<and> data_theme s' = data_theme s \<and>
         items s' = items s \<and> currentTheme_main s' = currentTheme_main s \<and>
         console s' = console s \<and> getActualTheme_main s' = getActualTheme_main s)) \<and>
   (currentTheme_part3 p \<noteq> JStr ''auto'' \<longrightarrow>
      (\<exists>p'. call_part3 (SystemChange b) p = Inr (JUndefined, p') \<and>
         dispatched p' = dispatched p \<and> data_theme p' = data_theme p \<and>
         items p' = items p \<and> currentTheme_part3 p' = currentTheme_part3 p \<and>
         console p' = console p \<and> getAppliedTheme_part3 p' = getAppliedTheme_part3 p))"
  by (simp add: systemChange_main_eq systemChange_part3_not_auto getActualTheme_main_def
      getAppliedTheme_part3_def)

text \<open>
  C6 for managers constructed over a stored theme dark, when the browser then turns
  to dark.
\<close>

theorem C6_systemChange_not_auto_witness:
  "map_sum id currentTheme_main
     (constructor_main (fresh_main\<lparr>items := [storageKey \<mapsto> ''dark'']\<rparr>)) = Inr (JStr ''dark'') \<and>
   JStr ''dark'' \<noteq> JStr ''auto'' \<and>
   map_sum id (\<lambda>s. (dispatched s, data_theme s, items s storageKey, currentTheme_main s))
     (then_do (constructor_main (fresh_main\<lparr>items := [storageKey \<mapsto> ''dark'']\<rparr>))
        (run_main [SystemChange True])) =
   map_sum id (\<lambda>s. (dispatched s, data_theme s, items s storageKey, currentTheme_main s))
     (constructor_main (fresh_main\<lparr>items := [storageKey \<mapsto> ''dark'']\<rparr>)) \<and>
   map_sum id currentTheme_part3
     (constructor_part3 (fresh_part3\<lparr>items := [storageKey \<mapsto> ''dark'']\<rparr>)) = Inr (JStr ''dark'') \<and>
   map_sum id (\<lambda>s. (dispatched s, data_theme s, items s storageKey, currentTheme_part3 s))
     (then_do (constructor_part3 (fresh_part3\<lparr>items := [storageKey \<mapsto> ''dark'']\<rparr>))
        (run_part3 [SystemChange True])) =
   map_sum id (\<lambda>s. (dispatched s, data_theme s, items s storageKey, currentTheme_part3 s))
     (constructor_part3 (fresh_part3\<lparr>items := [storageKey \<mapsto> ''dark'']\<rparr>))"
proof -
  obtain s where s: "constructor_main (fresh_main\<lparr>items := [storageKey \<mapsto> ''dark'']\<rparr>) = Inr s"
    and cs: "currentTheme_main s = JStr ''dark''"
    by (simp add: constructor_main_def getStoredTheme_main_eq fresh_main_def init_main_def
        applyTheme_main_def storeTheme_main_eq in_themes updateDocumentTheme_main_def
        setAttribute_data_theme_def dispatchEvent_def console_log_def Let_def)
  obtain p where p: "constructor_part3 (fresh_part3\<lparr>items := [storageKey \<mapsto> ''dark'']\<rparr>) = Inr p"
    and cp: "currentTheme_part3 p = JStr ''dark''"
    by (simp add: constructor_part3_def init_part3_def getStoredTheme_part3_eq fresh_part3_def
        applyTheme_part3_def storeTheme_part3_eq setAttribute_data_theme_def
        dispatchThemeChangeEvent_part3_def dispatchEvent_def detectSystemTheme_part3_def
        setupSystemThemeListener_part3_def defaultTheme_def js_or_def Let_def)
  from C6_systemChange_not_auto [of s True p] cs cp
  obtain s' p' where "call_main (SystemChange True) s = Inr (JUndefined, s')"
    "dispatched s' = dispatched s" "data_theme s' = data_theme s" "items s' = items s"
    "currentTheme_main s' = currentTheme_main s"
    "call_part3 (SystemChange True) p = Inr (JUndefined, p')"
    "dispatched p' = dispatched p" "data_theme p' = data_theme p" "items p' = items p"
    "currentTheme_part3 p' = currentTheme_part3 p"
    by auto
  then show ?thesis
    by (simp add: s p cs cp del: call_main.simps call_part3.simps)
qed

section \<open>Construction\<close>

lemma constructor_main_effect:
  "\<exists>s'. constructor_main w = Inr s' \<and>
     currentTheme_main s' =
       (if getItem_throws w then JStr ''auto''
        else (case items w storageKey of
                None \<Rightarrow> JStr ''auto''
              | Some v \<Rightarrow> if JStr v \<in> set themes then JStr v else JStr ''auto'')) \<and>
     data_theme s' = Some (ToString (getActualTheme_main s')) \<and>
     dispatched s' =
       dispatched w @ [ThemeChange_main (currentTheme_main s') (getActualTheme_main s')] \<and>
     items s' =
       (if setItem_throws w then items w
        else (items w)(storageKey \<mapsto> ToString (currentTheme_main s'))) \<and>
     (getItem_throws w \<longrightarrow>
        (Warn, ''localStorage not available, defaulting to auto theme'') \<in> set (console s')) \<and>
     (setItem_throws w \<longrightarrow> (Warn, ''Could not store theme preference'') \<in> set (console s')) \<and>
     prefers_dark s' = prefers_dark w \<and> listeners_main s' = 1 \<and>
     getItem_throws s' = getItem_throws w \<and> setItem_throws s' = setItem_throws w"
proof -
  define v where "v =
     (if getItem_throws w then JStr ''auto''
      else (case items w storageKey of
              None \<Rightarrow> JStr ''auto''
            | Some v \<Rightarrow> if v = [] then JStr ''auto'' else JStr v))"
  define s1 where "s1 =
     (if getItem_throws w
      then console_warn ''localStorage not available, defaulting to auto theme'' w else w)
       \<lparr>currentTheme_main := v, listeners_main := 0\<rparr>"
  have c: "constructor_main w = init_main s1"
    by (simp add: constructor_main_def getStoredTheme_main_eq v_def s1_def)
  obtain s' where i: "init_main s1 = Inr s'"
    and f: "currentTheme_main s' =
         (if currentTheme_main s1 \<in> set themes then currentTheme_main s1 else JStr ''auto'')"
      "data_theme s' = Some (ToString (getActualTheme_main s'))"
      "dispatched s' =
         dispatched s1 @ [ThemeChange_main (currentTheme_main s') (getActualTheme_main s')]"
      "items s' =
         (if setItem_throws s1 then items s1
          else (items s1)(storageKey \<mapsto> ToString (currentTheme_main s')))"
      "console s' =
         console s1
         @ (if currentTheme_main s1 \<in> set themes then []
            else [(Warn, ''Invalid theme: '' @ ToString (currentTheme_main s1)
                           @ '', defaulting to auto'')])
         @ (if setItem_throws s1 then [(Warn, ''Could not store theme preference'')] else [])
         @ [(Log, ''Theme Manager initialized: '' @ ToString (currentTheme_main s'))]"
      "prefers_dark s' = prefers_dark s1" "listeners_main s' = Suc (listeners_main s1)"
      "getItem_throws s' = getItem_throws s1" "setItem_throws s' = setItem_throws s1"
    using init_main_effect [of s1] by blast
  have cur: "currentTheme_main s' =
       (if getItem_throws w then JStr ''auto''
        else (case items w storageKey of
                None \<Rightarrow> JStr ''auto''
              | Some v \<Rightarrow> if JStr v \<in> set themes then JStr v else JStr ''auto''))"
    by (simp add: f(1) s1_def v_def in_themes split: option.splits)
  have g: "getItem_throws w \<longrightarrow>
      (Warn, ''localStorage not available, defaulting to auto theme'') \<in> set (console s')"
    by (simp add: f(5) s1_def console_warn_def)
  have h: "setItem_throws w \<longrightarrow> (Warn, ''Could not store theme preference'') \<in> set (console s')"
    by (simp add: f(5) s1_def console_warn_def)
  have rest: "dispatched s' =
       dispatched w @ [ThemeChange_main (currentTheme_main s') (getActualTheme_main s')]"
    "items s' =
       (if setItem_throws w then items w
        else (items w)(storageKey \<mapsto> ToString (currentTheme_main s')))"
    "prefers_dark s' = prefers_dark w" "listeners_main s' = 1"
    "getItem_throws s' = getItem_throws w" "setItem_throws s' = setItem_throws w"
    by (simp_all add: f s1_def console_warn_def)
  from c i cur f(2) g h rest show ?thesis by simp
qed

lemma constructor_part3_effect:
  "\<exists>s'. constructor_part3 w = Inr s' \<and>
     currentTheme_part3 s' =
       (if getItem_throws w then JStr ''auto''
        else (case items w storageKey of
                None \<Rightarrow> JStr ''auto''
              | Some v \<Rightarrow> if v = [] then JStr ''auto'' else JStr v)) \<and>
     systemTheme_part3 s' = (if prefers_dark w then JStr ''dark'' else JStr ''light'') \<and>
     data_theme s' =
       Some (if currentTheme_part3 s' = JStr ''auto'' then ''light''
             else ToString (currentTheme_part3 s')) \<and>
     dispatched s' =
       dispatched w
       @ [ThemeChange_part3 (currentTheme_part3 s')
            (if currentTheme_part3 s' = JStr ''auto'' then JStr ''light''
             else currentTheme_part3 s')
            JNull] \<and>
     items s' =
       (if setItem_throws w then items w
        else (items w)(storageKey \<mapsto> ToString (currentTheme_part3 s'))) \<and>
     console s' =
       console w
       @ (if getItem_throws w then [(Warn, ''Failed to access localStorage:'')] else [])
       @ (if setItem_throws w then [(Warn, ''Failed to store theme:'')] else []) \<and>
     prefers_dark s' = prefers_dark w \<and> listeners_part3 s' = 1 \<and>
     getItem_throws s' = getItem_throws w \<and> setItem_throws s' = setItem_throws w"
proof -
  define s0 where
    "s0 = w\<lparr>currentTheme_part3 := JNull, systemTheme_part3 := JNull, listeners_part3 := 0\<rparr>"
  have w: "items s0 = items w" "getItem_throws s0 = getItem_throws w"
    "setItem_throws s0 = setItem_throws w" "prefers_dark s0 = prefers_dark w"
    "dispatched s0 = dispatched w" "console s0 = console w" "systemTheme_part3 s0 = JNull"
    "listeners_part3 s0 = 0"
    by (simp_all add: s0_def)
  have c: "constructor_part3 w = init_part3 s0"
    by (simp add: constructor_part3_def s0_def)
  obtain s' where i: "init_part3 s0 = Inr s'"
    and f: "currentTheme_part3 s' =
       (if getItem_throws s0 then JStr ''auto''
        else (case items s0 storageKey of
                None \<Rightarrow> JStr ''auto''
              | Some v \<Rightarrow> if v = [] then JStr ''auto'' else JStr v))"
     "systemTheme_part3 s' = (if prefers_dark s0 then JStr ''dark'' else JStr ''light'')"
     "data_theme s' =
       Some (if currentTheme_part3 s' = JStr ''auto''
             then ToString (js_or (systemTheme_part3 s0) (JStr ''light''))
             else ToString (currentTheme_part3 s'))"
     "dispatched s' =
       dispatched s0
       @ [ThemeChange_part3 (currentTheme_part3 s')
            (if currentTheme_part3 s' = JStr ''auto''
             then js_or (systemTheme_part3 s0) (JStr ''light'')
             else currentTheme_part3 s')
            (systemTheme_part3 s0)]"
     "items s' =
       (if setItem_throws s0 then items s0
        else (items s0)(storageKey \<mapsto> ToString (currentTheme_part3 s')))"
     "console s' =
       console s0
       @ (if getItem_throws s0 then [(Warn, ''Failed to access localStorage:'')] else [])
       @ (if setItem_throws s0 then [(Warn, ''Failed to store theme:'')] else [])"
     "prefers_dark s' = prefers_dark s0" "listeners_part3 s' = Suc (listeners_part3 s0)"
     "getItem_throws s' = getItem_throws s0" "setItem_throws s' = setItem_throws s0"
    using init_part3_effect [of s0] by blast
  have "currentTheme_part3 s' =
       (if getItem_throws w then JStr ''auto''
        else (case items w storageKey of
                None \<Rightarrow> JStr ''auto''
              | Some v \<Rightarrow> if v = [] then JStr ''auto'' else JStr v))"
    "systemTheme_part3 s' = (if prefers_dark w then JStr ''dark'' else JStr ''light'')"
    "data_theme s' =
       Some (if currentTheme_part3 s' = JStr ''auto'' then ''light''
             else ToString (currentTheme_part3 s'))"
    "dispatched s' =
       dispatched w
       @ [ThemeChange_part3 (currentTheme_part3 s')
            (if currentTheme_part3 s' = JStr ''auto'' then JStr ''light''
             else currentTheme_part3 s')
            JNull]"
    "items s' =
       (if setItem_throws w then items w
        else (items w)(storageKey \<mapsto> ToString (currentTheme_part3 s')))"
    "console s' =
       console w
       @ (if getItem_throws w then [(Warn, ''Failed to access localStorage:'')] else [])
       @ (if setItem_throws w then [(Warn, ''Failed to store theme:'')] else [])"
    "prefers_dark s' = prefers_dark w" "listeners_part3 s' = 1"
    "getItem_throws s' = getItem_throws w" "setItem_throws s' = setItem_throws w"
    using f unfolding w by (simp_all add: js_or_def)
  with c i show ?thesis by simp
qed

section \<open>The stored theme is written, never removed\<close>

lemma applyTheme_main_dom:
  assumes "applyTheme_main t a s = Inr s'"
  shows "dom (items s) \<subseteq> dom (items s')"
proof -
  obtain s2 where "applyTheme_main t a s = Inr s2"
    "items s2 =
       (if setItem_throws s then items s
        else (items s)(storageKey \<mapsto> ToString (currentTheme_main s2)))"
    using applyTheme_main_effect [of t a s] by blast
  with assms show ?thesis by auto
qed

lemma applyTheme_part3_dom:
  assumes "applyTheme_part3 t a s = Inr s'"
  shows "dom (items s) \<subseteq> dom (items s')"
proof -
  obtain s2 where "applyTheme_part3 t a s = Inr s2"
    "items s2 = (if setItem_throws s then items s else (items s)(storageKey \<mapsto> ToString t))"
    using applyTheme_part3_effect [of t a s] by blast
  with assms show ?thesis by auto
qed

lemma setTheme_part3_dom:
  assumes "setTheme_part3 t s = Inr s'"
  shows "dom (items s) \<subseteq> dom (items s')"
proof (cases "t \<in> set themes")
  case True
  with assms have "applyTheme_part3 t True s = Inr s'" by (simp add: setTheme_part3_def)
  then show ?thesis by (rule applyTheme_part3_dom)
next
  case False
  with assms show ?thesis by (auto simp: setTheme_part3_def console_warn_def)
qed

lemma listener_part3_dom:
  assumes "listener_part3 b s = Inr s'"
  shows "dom (items s) \<subseteq> dom (items s')"
proof (cases "currentTheme_part3 s = JStr ''auto''")
  case True
  with assms have "applyTheme_part3 (JStr ''auto'') True
      (s\<lparr>systemTheme_part3 := (if b then JStr ''dark'' else JStr ''light'')\<rparr>) = Inr s'"
    by (simp add: listener_part3_def Let_def)
  from applyTheme_part3_dom [OF this] show ?thesis by simp
next
  case False
  with assms show ?thesis by (auto simp: listener_part3_def Let_def)
qed

lemma call_main_dom:
  assumes "call_main a s = Inr (v, s')"
  shows "dom (items s) \<subseteq> dom (items s')"
proof (cases a)
  case Init
  with assms have i: "init_main s = Inr s'"
    by (cases "init_main s") auto
  obtain s2 where "init_main s = Inr s2"
    "items s2 =
       (if setItem_throws s then items s
        else (items s)(storageKey \<mapsto> ToString (currentTheme_main s2)))"
    using init_main_effect [of s] by blast
  with i show ?thesis by auto
next
  case (SetTheme t)
  with assms have "applyTheme_main t True s = Inr s'"
    by (cases "applyTheme_main t True s") (auto simp: setTheme_main_def)
  then show ?thesis by (rule applyTheme_main_dom)
next
  case CycleTheme
  with assms have "cycleTheme_main s = Inr s'"
    by (cases "cycleTheme_main s") auto
  then obtain t where "applyTheme_main t True s = Inr s'"
    by (simp add: cycleTheme_main_eq setTheme_main_def)
  then show ?thesis by (rule applyTheme_main_dom)
next
  case GetTheme
  with assms show ?thesis by auto
next
  case GetEffective
  with assms show ?thesis by auto
next
  case (SystemChange b)
  with assms show ?thesis by (auto simp: systemChange_main_eq split: if_splits)
qed

lemma call_part3_dom:
  assumes "call_part3 a s = Inr (v, s')"
  shows "dom (items s) \<subseteq> dom (items s')"
proof (cases a)
  case Init
  with assms have i: "init_part3 s = Inr s'"
    by (cases "init_part3 s") auto
  obtain s2 where "init_part3 s = Inr s2"
    "items s2 =
       (if setItem_throws s then items s
        else (items s)(storageKey \<mapsto> ToString (currentTheme_part3 s2)))"
    using init_part3_effect [of s] by blast
  with i show ?thesis by auto
next
  case (SetTheme t)
  with assms have "setTheme_part3 t s = Inr s'"
    by (cases "setTheme_part3 t s") auto
  then show ?thesis by (rule setTheme_part3_dom)
next
  case CycleTheme
  with assms have "cycleTheme_part3 s = Inr s'"
    by (cases "cycleTheme_part3 s") auto
  then obtain t where "setTheme_part3 t s = Inr s'" by (simp add: cycleTheme_part3_eq)
  then show ?thesis by (rule setTheme_part3_dom)
next
  case GetTheme
  with assms show ?thesis by auto
next
  case GetEffective
  with assms show ?thesis by auto
next
  case (SystemChange b)
  with assms have f: "fire (listeners_part3 s) (listener_part3 b) (s\<lparr>prefers_dark := b\<rparr>) = Inr s'"
    by (cases "systemChange_part3 b s") (auto simp: systemChange_part3_def)
  have "\<And>x x'. dom (items s) \<subseteq> dom (items x) \<Longrightarrow> listener_part3 b x = Inr x' \<Longrightarrow>
      dom (items s) \<subseteq> dom (items x')"
    using listener_part3_dom by blast
  moreover have "dom (items s) \<subseteq> dom (items (s\<lparr>prefers_dark := b\<rparr>))" by simp
  ultimately show ?thesis
    using f by (rule fire_preserves [where P = "\<lambda>x. dom (items s) \<subseteq> dom (items x)"])
qed

lemma run_main_dom: "\<exists>s'. run_main as s = Inr s' \<and> dom (items s) \<subseteq> dom (items s')"
proof -
  obtain s' where r: "run_main as s = Inr s'" using run_main_total by blast
  have "\<And>a x v x'. dom (items s) \<subseteq> dom (items x) \<Longrightarrow> call_main a x = Inr (v, x') \<Longrightarrow>
      dom (items s) \<subseteq> dom (items x')"
    using call_main_dom by blast
  moreover have "dom (items s) \<subseteq> dom (items s)" by simp
  ultimately have "dom (items s) \<subseteq> dom (items s')"
    using r by (rule run_main_preserves [where P = "\<lambda>x. dom (items s) \<subseteq> dom (items x)"])
  with r show ?thesis by blast
qed

lemma run_part3_dom: "\<exists>s'. run_part3 as s = Inr s' \<and> dom (items s) \<subseteq> dom (items s')"
proof -
  obtain s' where r: "run_part3 as s = Inr s'" using run_part3_total by blast
  have "\<And>a x v x'. dom (items s) \<subseteq> dom (items x) \<Longrightarrow> call_part3 a x = Inr (v, x') \<Longrightarrow>
      dom (items s) \<subseteq> dom (items x')"
    using call_part3_dom by blast
  moreover have "dom (items s) \<subseteq> dom (items s)" by simp
  ultimately have "dom (items s) \<subseteq> dom (items s')"
    using r by (rule run_part3_preserves [where P = "\<lambda>x. dom (items s) \<subseteq> dom (items x)"])
  with r show ?thesis by blast
qed

lemma constructor_main_writes:
  "\<exists>s'. constructor_main w = Inr s' \<and>
     items s' =
       (if setItem_throws w then items w
        else (items w)(storageKey \<mapsto> ToString (currentTheme_main s'))) \<and>
     (items w storageKey = Some (ToString (currentTheme_main s')) \<longrightarrow> items s' = items w) \<and>
     dom (items w) \<subseteq> dom (items s')"
proof -
  obtain s' where s': "constructor_main w = Inr s'"
    "items s' =
       (if setItem_throws w then items w
        else (items w)(storageKey \<mapsto> ToString (currentTheme_main s')))"
    using constructor_main_effect [of w] by blast
  then have "items w storageKey = Some (ToString (currentTheme_main s')) \<longrightarrow> items s' = items w"
    by (auto simp: map_upd_triv)
  moreover from s'(2) have "dom (items w) \<subseteq> dom (items s')" by auto
  ultimately show ?thesis using s' by blast
qed

lemma constructor_part3_writes:
  "\<exists>s'. constructor_part3 w = Inr s' \<and>
     items s' =
       (if setItem_throws w then items w
        else (items w)(storageKey \<mapsto> ToString (currentTheme_part3 s'))) \<and>
     (items w storageKey = Some (ToString (currentTheme_part3 s')) \<longrightarrow> items s' = items w) \<and>
     dom (items w) \<subseteq> dom (items s')"
proof -
  obtain s' where s': "constructor_part3 w = Inr s'"
    "items s' =
       (if setItem_throws w then items w
        else (items w)(storageKey \<mapsto> ToString (currentTheme_part3 s')))"
    using constructor_part3_effect [of w] by blast
  then have "items w storageKey = Some (ToString (currentTheme_part3 s')) \<longrightarrow> items s' = items w"
    by (auto simp: map_upd_triv)
  moreover from s'(2) have "dom (items w) \<subseteq> dom (items s')" by auto
  ultimately show ?thesis using s' by blast
qed

text \<open>
  Claim C9. \<^verbatim>\<open>new ThemeManager()\<close> passes the theme it resolved to
  \<^verbatim>\<open>localStorage.setItem\<close> under the storage key, so unless the browser refuses the
  write the key then holds that theme, and a storage that already held it is left as
  it was. No sequence of actions removes a key from the storage: every key present
  before is present afterwards.
\<close>

theorem C9_written_never_removed:
  "(\<exists>s'. constructor_main w = Inr s' \<and>
      items s' =
        (if setItem_throws w then items w
         else (items w)(storageKey \<mapsto> ToString (currentTheme_main s'))) \<and>
      (items w storageKey = Some (ToString (currentTheme_main s')) \<longrightarrow> items s' = items w) \<and>
      dom (items w) \<subseteq> dom (items s')) \<and>
   (\<exists>s'. run_main as s = Inr s' \<and> dom (items s) \<subseteq> dom (items s')) \<and>
   (\<exists>p'. constructor_part3 v = Inr p' \<and>
      items p' =
        (if setItem_throws v then items v
         else (items v)(storageKey \<mapsto> ToString (currentTheme_part3 p'))) \<and>
      (items v storageKey = Some (ToString (currentTheme_part3 p')) \<longrightarrow> items p' = items v) \<and>
      dom (items v) \<subseteq> dom (items p')) \<and>
   (\<exists>p'. run_part3 as p = Inr p' \<and> dom (items p) \<subseteq> dom (items p'))"
  using constructor_main_writes [of w] run_main_dom [of as s]
    constructor_part3_writes [of v] run_part3_dom [of as p]
  by blast


text \<open>
  C9 with the theme dark already stored: construction leaves the storage as it is, and
  the key is still there after a cycle, a change of colour scheme and a rejected theme.
\<close>

theorem C9_written_never_removed_witness:
  "items (fresh_main\<lparr>items := [storageKey \<mapsto> ''dark'']\<rparr>) storageKey = Some ''dark'' \<and>
   map_sum id (\<lambda>s. (currentTheme_main s, items s))
     (constructor_main (fresh_main\<lparr>items := [storageKey \<mapsto> ''dark'']\<rparr>)) =
     Inr (JStr ''dark'', [storageKey \<mapsto> ''dark'']) \<and>
   map_sum id (\<lambda>s. storageKey \<in> dom (items s))
     (run_main [CycleTheme, SystemChange True, SetTheme (JStr ''blue'')]
        (fresh_main\<lparr>items := [storageKey \<mapsto> ''dark'']\<rparr>)) = Inr True \<and>
   map_sum id (\<lambda>s. (currentTheme_part3 s, items s))
     (constructor_part3 (fresh_part3\<lparr>items := [storageKey \<mapsto> ''dark'']\<rparr>)) =
     Inr (JStr ''dark'', [storageKey \<mapsto> ''dark'']) \<and>
   map_sum id (\<lambda>s. storageKey \<in> dom (items s))
     (run_part3 [CycleTheme, SystemChange True, SetTheme (JStr ''blue'')]
        (fresh_part3\<lparr>items := [storageKey \<mapsto> ''dark'']\<rparr>)) = Inr True"
proof -
  let ?w = "fresh_main\<lparr>items := [storageKey \<mapsto> ''dark'']\<rparr>"
  let ?v = "fresh_part3\<lparr>items := [storageKey \<mapsto> ''dark'']\<rparr>"
  let ?as = "[CycleTheme, SystemChange True, SetTheme (JStr ''blue'')]"
  obtain s1 s2 p1 p2 where
    c: "constructor_main ?w = Inr s1"
      "items ?w storageKey = Some (ToString (currentTheme_main s1)) \<longrightarrow> items s1 = items ?w"
    and r: "run_main ?as ?w = Inr s2" "dom (items ?w) \<subseteq> dom (items s2)"
    and d: "constructor_part3 ?v = Inr p1"
      "items ?v storageKey = Some (ToString (currentTheme_part3 p1)) \<longrightarrow> items p1 = items ?v"
    and q: "run_part3 ?as ?v = Inr p2" "dom (items ?v) \<subseteq> dom (items p2)"
    using C9_written_never_removed [of ?w ?as ?w ?v ?v] by blast
  obtain s1' where "constructor_main ?w = Inr s1'" "currentTheme_main s1' = JStr ''dark''"
    using constructor_main_effect [of ?w] by (auto simp: fresh_main_def in_themes)
  with c(1) have cs: "currentTheme_main s1 = JStr ''dark''" by simp
  obtain p1' where "constructor_part3 ?v = Inr p1'" "currentTheme_part3 p1' = JStr ''dark''"
    using constructor_part3_effect [of ?v] by (auto simp: fresh_part3_def storageKey_def)
  with d(1) have cp: "currentTheme_part3 p1 = JStr ''dark''" by simp
  have "items s1 = [storageKey \<mapsto> ''dark'']"
    using c(2) by (simp add: cs fresh_main_def)
  moreover have "items p1 = [storageKey \<mapsto> ''dark'']"
    using d(2) by (simp add: cp fresh_part3_def)
  moreover have "storageKey \<in> dom (items s2)"
    using r(2) by (simp add: fresh_main_def)
  moreover have "storageKey \<in> dom (items p2)"
    using q(2) by (simp add: fresh_part3_def)
  ultimately show ?thesis
    by (simp add: c(1) r(1) d(1) q(1) cs cp del: run_main.simps run_part3.simps)
qed

section \<open>Storage that refuses access\<close>

lemma constructor_main_read_failure:
  assumes "getItem_throws w"
  shows "\<exists>s'. constructor_main w = Inr s' \<and> currentTheme_main s' = JStr ''auto'' \<and>
     (Warn, ''localStorage not available, defaulting to auto theme'') \<in> set (console s') \<and>
     data_theme s' = Some (if prefers_dark w then ''dark'' else ''light'') \<and>
     map_sum id (\<lambda>x. (currentTheme_main x, data_theme x, dispatched x))
       (constructor_main (w\<lparr>getItem_throws := False, items := (items w)(storageKey := None)\<rparr>)) =
     Inr (currentTheme_main s', data_theme s', dispatched s')"
proof -
  let ?w' = "w\<lparr>getItem_throws := False, items := (items w)(storageKey := None)\<rparr>"
  obtain s' where s': "constructor_main w = Inr s'"
    "currentTheme_main s' =
       (if getItem_throws w then JStr ''auto''
        else (case items w storageKey of
                None \<Rightarrow> JStr ''auto''
              | Some v \<Rightarrow> if JStr v \<in> set themes then JStr v else JStr ''auto''))"
    "data_theme s' = Some (ToString (getActualTheme_main s'))"
    "dispatched s' =
       dispatched w @ [ThemeChange_main (currentTheme_main s') (getActualTheme_main s')]"
    "getItem_throws w \<longrightarrow>
        (Warn, ''localStorage not available, defaulting to auto theme'') \<in> set (console s')"
    "prefers_dark s' = prefers_dark w"
    using constructor_main_effect [of w] by blast
  obtain s2 where s2: "constructor_main ?w' = Inr s2"
    "currentTheme_main s2 =
       (if getItem_throws ?w' then JStr ''auto''
        else (case items ?w' storageKey of
                None \<Rightarrow> JStr ''auto''
              | Some v \<Rightarrow> if JStr v \<in> set themes then JStr v else JStr ''auto''))"
    "data_theme s2 = Some (ToString (getActualTheme_main s2))"
    "dispatched s2 =
       dispatched ?w' @ [ThemeChange_main (currentTheme_main s2) (getActualTheme_main s2)]"
    "prefers_dark s2 = prefers_dark ?w'"
    using constructor_main_effect [of ?w'] by blast
  have 1: "currentTheme_main s' = JStr ''auto''" using s'(2) assms by simp
  have 2: "currentTheme_main s2 = JStr ''auto''" using s2(2) by simp
  have 3: "getActualTheme_main s' = (if prefers_dark w then JStr ''dark'' else JStr ''light'')"
    "getActualTheme_main s2 = (if prefers_dark w then JStr ''dark'' else JStr ''light'')"
    by (simp_all add: getActualTheme_main_def 1 2 s'(6) s2(5))
  show ?thesis
    using assms s'(5) by (simp add: s'(1,3,4) s2(1,3,4) 1 2 3)
qed

lemma constructor_part3_read_failure:
  assumes "getItem_throws w"
  shows "\<exists>s'. constructor_part3 w = Inr s' \<and> currentTheme_part3 s' = defaultTheme \<and>
     (Warn, ''Failed to access localStorage:'') \<in> set (console s') \<and>
     data_theme s' \<in> {Some ''light'', Some ''dark''} \<and>
     map_sum id (\<lambda>x. (currentTheme_part3 x, data_theme x, dispatched x))
       (constructor_part3 (w\<lparr>getItem_throws := False, items := (items w)(storageKey := None)\<rparr>)) =
     Inr (currentTheme_part3 s', data_theme s', dispatched s')"
proof -
  let ?w' = "w\<lparr>getItem_throws := False, items := (items w)(storageKey := None)\<rparr>"
  obtain s' where s': "constructor_part3 w = Inr s'"
    "currentTheme_part3 s' =
       (if getItem_throws w then JStr ''auto''
        else (case items w storageKey of
                None \<Rightarrow> JStr ''auto''
              | Some v \<Rightarrow> if v = [] then JStr ''auto'' else JStr v))"
    "data_theme s' =
       Some (if currentTheme_part3 s' = JStr ''auto'' then ''light''
             else ToString (currentTheme_part3 s'))"
    "dispatched s' =
       dispatched w
       @ [ThemeChange_part3 (currentTheme_part3 s')
            (if currentTheme_part3 s' = JStr ''auto'' then JStr ''light''
             else currentTheme_part3 s')
            JNull]"
    "console s' =
       console w
       @ (if getItem_throws w then [(Warn, ''Failed to access localStorage:'')] else [])
       @ (if setItem_throws w then [(Warn, ''Failed to store theme:'')] else [])"
    using constructor_part3_effect [of w] by blast
  obtain s2 where s2: "constructor_part3 ?w' = Inr s2"
    "currentTheme_part3 s2 =
       (if getItem_throws ?w' then JStr ''auto''
        else (case items ?w' storageKey of
                None \<Rightarrow> JStr ''auto''
              | Some v \<Rightarrow> if v = [] then JStr ''auto'' else JStr v))"
    "data_theme s2 =
       Some (if currentTheme_part3 s2 = JStr ''auto'' then ''light''
             else ToString (currentTheme_part3 s2))"
    "dispatched s2 =
       dispatched ?w'
       @ [ThemeChange_part3 (currentTheme_part3 s2)
            (if currentTheme_part3 s2 = JStr ''auto'' then JStr ''light''
             else currentTheme_part3 s2)
            JNull]"
    using constructor_part3_effect [of ?w'] by blast
  have 1: "currentTheme_part3 s' = JStr ''auto''" using s'(2) assms by simp
  have 2: "currentTheme_part3 s2 = JStr ''auto''" using s2(2) by simp
  show ?thesis
    using assms by (simp add: s'(1,3,4,5) s2(1,3,4) 1 2 defaultTheme_def)
qed

lemma applyTheme_main_write_failure:
  assumes "setItem_throws s"
  shows "\<exists>s'. applyTheme_main t a s = Inr s' \<and>
     (Warn, ''Could not store theme preference'') \<in> set (console s') \<and>
     items s' = items s \<and>
     currentTheme_main s' = (if t \<in> set themes then t else JStr ''auto'') \<and>
     data_theme s' = Some (ToString (getActualTheme_main s')) \<and>
     dispatched s' =
       dispatched s @ [ThemeChange_main (currentTheme_main s') (getActualTheme_main s')]"
proof -
  obtain s' where s': "applyTheme_main t a s = Inr s'"
    "currentTheme_main s' = (if t \<in> set themes then t else JStr ''auto'')"
    "data_theme s' = Some (ToString (getActualTheme_main s'))"
    "dispatched s' =
       dispatched s @ [ThemeChange_main (currentTheme_main s') (getActualTheme_main s')]"
    "items s' =
       (if setItem_throws s then items s
        else (items s)(storageKey \<mapsto> ToString (currentTheme_main s')))"
    "console s' =
       console s
       @ (if t \<in> set themes then []
          else [(Warn, ''Invalid theme: '' @ ToString t @ '', defaulting to auto'')])
       @ (if setItem_throws s then [(Warn, ''Could not store theme preference'')] else [])"
    using applyTheme_main_effect [of t a s] by blast
  from s'(5,6) assms have "items s' = items s"
    "(Warn, ''Could not store theme preference'') \<in> set (console s')"
    by simp_all
  with s'(1-4) show ?thesis by blast
qed

lemma applyTheme_part3_write_failure:
  assumes "setItem_throws s"
  shows "\<exists>s'. applyTheme_part3 t a s = Inr s' \<and>
     (Warn, ''Failed to store theme:'') \<in> set (console s') \<and>
     items s' = items s \<and>
     currentTheme_part3 s' = t \<and>
     data_theme s' = Some (ToString (getAppliedTheme_part3 s')) \<and>
     dispatched s' =
       dispatched s @ [ThemeChange_part3 t (getAppliedTheme_part3 s') (systemTheme_part3 s)]"
proof -
  obtain s' where s': "applyTheme_part3 t a s = Inr s'"
    "currentTheme_part3 s' = t"
    "data_theme s' = Some (ToString (getAppliedTheme_part3 s'))"
    "dispatched s' =
       dispatched s @ [ThemeChange_part3 t (getAppliedTheme_part3 s') (systemTheme_part3 s)]"
    "items s' =
       (if setItem_throws s then items s else (items s)(storageKey \<mapsto> ToString t))"
    "console s' =
       console s @ (if setItem_throws s then [(Warn, ''Failed to store theme:'')] else [])"
    using applyTheme_part3_effect [of t a s] by blast
  from s'(5,6) assms have "items s' = items s"
    "(Warn, ''Failed to store theme:'') \<in> set (console s')"
    by simp_all
  with s'(1-4) show ?thesis by blast
qed


text \<open>
  Claim C7. Neither construction nor any sequence of actions ends in an exception,
  whatever the storage does. When \<^verbatim>\<open>getItem\<close> throws, the constructor logs a warning
  and goes on exactly as with an empty storage: the current theme is the default auto and
  a theme is applied. When \<^verbatim>\<open>setItem\<close> throws, \<^verbatim>\<open>applyTheme\<close> (through which
  construction, \<^verbatim>\<open>setTheme\<close>, \<^verbatim>\<open>cycleTheme\<close> and the listener of part_003 write)
  logs a warning, leaves the storage alone and still sets \<^verbatim>\<open>currentTheme\<close>, applies
  the theme and dispatches the event.
\<close>

theorem C7_storage_failures:
  "(\<exists>s'. constructor_main w = Inr s') \<and>
   (\<exists>s'. run_main as s = Inr s') \<and>
   (getItem_throws w \<longrightarrow>
      (\<exists>s'. constructor_main w = Inr s' \<and> currentTheme_main s' = JStr ''auto'' \<and>
         (Warn, ''localStorage not available, defaulting to auto theme'') \<in> set (console s') \<and>
         data_theme s' = Some (if prefers_dark w then ''dark'' else ''light'') \<and>
         map_sum id (\<lambda>x. (currentTheme_main x, data_theme x, dispatched x))
           (constructor_main
              (w\<lparr>getItem_throws := False, items := (items w)(storageKey := None)\<rparr>)) =
         Inr (currentTheme_main s', data_theme s', dispatched s'))) \<and>
   (setItem_throws s \<longrightarrow>
      (\<exists>s'. applyTheme_main t a s = Inr s' \<and>
         (Warn, ''Could not store theme preference'') \<in> set (console s') \<and>
         items s' = items s \<and>
         currentTheme_main s' = (if t \<in> set themes then t else JStr ''auto'') \<and>
         data_theme s' = Some (ToString (getActualTheme_main s')) \<and>
         dispatched s' =
           dispatched s @ [ThemeChange_main (currentTheme_main s') (getActualTheme_main s')])) \<and>
   (\<exists>p'. constructor_part3 v = Inr p') \<and>
   (\<exists>p'. run_part3 as p = Inr p') \<and>
   (getItem_throws v \<longrightarrow>
      (\<exists>p'. constructor_part3 v = Inr p' \<and> currentTheme_part3 p' = defaultTheme \<and>
         (Warn, ''Failed to access localStorage:'') \<in> set (console p') \<and>
         data_theme p' \<in> {Some ''light'', Some ''dark''} \<and>
         map_sum id (\<lambda>x. (currentTheme_part3 x, data_theme x, dispatched x))
           (constructor_part3
              (v\<lparr>getItem_throws := False, items := (items v)(storageKey := None)\<rparr>)) =
         Inr (currentTheme_part3 p', data_theme p', dispatched p'))) \<and>
   (setItem_throws p \<longrightarrow>
      (\<exists>p'. applyTheme_part3 t a p = Inr p' \<and>
         (Warn, ''Failed to store theme:'') \<in> set (console p') \<and>
         items p' = items p \<and>
         currentTheme_part3 p' = t \<and>
         data_theme p' = Some (ToString (getAppliedTheme_part3 p')) \<and>
         dispatched p' =
           dispatched p @ [ThemeChange_part3 t (getAppliedTheme_part3 p') (systemTheme_part3 p)]))"
proof -
  have "\<exists>s'. constructor_main w = Inr s'"
    using constructor_main_effect [of w] by blast
  moreover have "\<exists>p'. constructor_part3 v = Inr p'"
    using constructor_part3_effect [of v] by blast
  ultimately show ?thesis
    using run_main_total [of as s] run_part3_total [of as p]
      constructor_main_read_failure [of w] constructor_part3_read_failure [of v]
      applyTheme_main_write_failure [of s t a] applyTheme_part3_write_failure [of p t a]
    by blast
qed

text \<open>
  C7 in a browser that refuses every access to the storage and prefers dark:
  construction, then \<^verbatim>\<open>applyTheme('dark')\<close>.
\<close>

theorem C7_storage_failures_witness:
  "getItem_throws (fresh_main\<lparr>getItem_throws := True, setItem_throws := True,
      prefers_dark := True\<rparr>) \<and>
   setItem_throws (fresh_main\<lparr>getItem_throws := True, setItem_throws := True,
      prefers_dark := True\<rparr>) \<and>
   map_sum id (\<lambda>x. (currentTheme_main x, data_theme x))
     (constructor_main (fresh_main\<lparr>getItem_throws := True, setItem_throws := True,
        prefers_dark := True\<rparr>)) = Inr (JStr ''auto'', Some ''dark'') \<and>
   map_sum id (\<lambda>x. (currentTheme_main x, items x storageKey))
     (applyTheme_main (JStr ''dark'') True
        (fresh_main\<lparr>getItem_throws := True, setItem_throws := True, prefers_dark := True\<rparr>)) =
     Inr (JStr ''dark'', None) \<and>
   getItem_throws (fresh_part3\<lparr>getItem_throws := True, setItem_throws := True,
      prefers_dark := True\<rparr>) \<and>
   setItem_throws (fresh_part3\<lparr>getItem_throws := True, setItem_throws := True,
      prefers_dark := True\<rparr>) \<and>
   map_sum id currentTheme_part3
     (constructor_part3 (fresh_part3\<lparr>getItem_throws := True, setItem_throws := True,
        prefers_dark := True\<rparr>)) = Inr (JStr ''auto'') \<and>
   map_sum id (\<lambda>x. (currentTheme_part3 x, items x storageKey))
     (applyTheme_part3 (JStr ''dark'') True
        (fresh_part3\<lparr>getItem_throws := True, setItem_throws := True, prefers_dark := True\<rparr>)) =
     Inr (JStr ''dark'', None)"
proof -
  let ?w = "fresh_main\<lparr>getItem_throws := True, setItem_throws := True, prefers_dark := True\<rparr>"
  let ?v = "fresh_part3\<lparr>getItem_throws := True, setItem_throws := True, prefers_dark := True\<rparr>"
  have g: "getItem_throws ?w" "setItem_throws ?w" "getItem_throws ?v" "setItem_throws ?v"
    by simp_all
  obtain s1 s2 p1 p2 where
    "constructor_main ?w = Inr s1" "currentTheme_main s1 = JStr ''auto''"
    "data_theme s1 = Some (if prefers_dark ?w then ''dark'' else ''light'')"
    "applyTheme_main (JStr ''dark'') True ?w = Inr s2" "items s2 = items ?w"
    "currentTheme_main s2 = (if JStr ''dark'' \<in> set themes then JStr ''dark'' else JStr ''auto'')"
    "constructor_part3 ?v = Inr p1" "currentTheme_part3 p1 = defaultTheme"
    "applyTheme_part3 (JStr ''dark'') True ?v = Inr p2" "items p2 = items ?v"
    "currentTheme_part3 p2 = JStr ''dark''"
    using C7_storage_failures [of ?w "[]" ?w "JStr ''dark''" True ?v ?v] g by blast
  then show ?thesis
    by (simp add: in_themes defaultTheme_def fresh_main_def fresh_part3_def)
qed

section \<open>Setting a value that is not a theme\<close>

text \<open>
  Claim C2 as stated does not hold: \<^verbatim>\<open>setTheme('blue')\<close> of main.js returns normally,
  and afterwards the current and the stored theme are auto instead of light.
\<close>

theorem C2_setTheme_blue_counterexample:
  "setTheme_main (JStr ''blue'') light_main =
     Inr (light_main
            \<lparr>currentTheme_main := JStr ''auto'',
             items := [storageKey \<mapsto> ''auto''],
             dispatched := [ThemeChange_main (JStr ''auto'') (JStr ''light'')],
             console := [(Warn, ''Invalid theme: blue, defaulting to auto'')]\<rparr>)"
  by (simp add: setTheme_main_def applyTheme_main_def in_themes storeTheme_main_eq
      updateDocumentTheme_main_def setAttribute_data_theme_def dispatchEvent_def
      console_warn_def light_main_def Let_def)

text \<open>
  Claim C2, amended. For a value \<open>v\<close> outside light, dark and auto no error is raised.
  \<^verbatim>\<open>setTheme(v)\<close> of part_003 logs a warning and changes nothing else: current theme,
  storage, \<^verbatim>\<open>data-theme\<close> and dispatched events stay as they were. \<^verbatim>\<open>setTheme(v)\<close> of
  main.js logs a warning and falls back to auto: the current theme becomes auto, auto is
  stored unless the write is refused, the effective theme of auto is applied and one
  event is dispatched.
\<close>

theorem C2_setTheme_invalid:
  assumes "v \<notin> set themes"
  shows "(\<exists>s'. setTheme_main v s = Inr s' \<and>
            currentTheme_main s' = JStr ''auto'' \<and>
            items s' =
              (if setItem_throws s then items s else (items s)(storageKey \<mapsto> ''auto'')) \<and>
            data_theme s' = Some (if prefers_dark s then ''dark'' else ''light'') \<and>
            dispatched s' =
              dispatched s
              @ [ThemeChange_main (JStr ''auto'')
                   (if prefers_dark s then JStr ''dark'' else JStr ''light'')] \<and>
            (Warn, ''Invalid theme: '' @ ToString v @ '', defaulting to auto'')
              \<in> set (console s')) \<and>
         (\<exists>p'. setTheme_part3 v p = Inr p' \<and>
            currentTheme_part3 p' = currentTheme_part3 p \<and>
            items p' = items p \<and>
            data_theme p' = data_theme p \<and>
            dispatched p' = dispatched p \<and>
            console p' =
              console p
              @ [(Warn, ''Theme '' @ [CHR 0x22] @ ToString v @ [CHR 0x22]
                          @ '' is not available'')])"
proof -
  obtain s' where s': "applyTheme_main v True s = Inr s'"
    "currentTheme_main s' = (if v \<in> set themes then v else JStr ''auto'')"
    "data_theme s' = Some (ToString (getActualTheme_main s'))"
    "dispatched s' =
       dispatched s @ [ThemeChange_main (currentTheme_main s') (getActualTheme_main s')]"
    "items s' =
       (if setItem_throws s then items s
        else (items s)(storageKey \<mapsto> ToString (currentTheme_main s')))"
    "console s' =
       console s
       @ (if v \<in> set themes then []
          else [(Warn, ''Invalid theme: '' @ ToString v @ '', defaulting to auto'')])
       @ (if setItem_throws s then [(Warn, ''Could not store theme preference'')] else [])"
    "prefers_dark s' = prefers_dark s"
    using applyTheme_main_effect [of v True s] by blast
  have c: "currentTheme_main s' = JStr ''auto''" using s'(2) assms by simp
  have g: "getActualTheme_main s' = (if prefers_dark s then JStr ''dark'' else JStr ''light'')"
    by (simp add: getActualTheme_main_def c s'(7))
  have m: "\<exists>s'. setTheme_main v s = Inr s' \<and>
            currentTheme_main s' = JStr ''auto'' \<and>
            items s' =
              (if setItem_throws s then items s else (items s)(storageKey \<mapsto> ''auto'')) \<and>
            data_theme s' = Some (if prefers_dark s then ''dark'' else ''light'') \<and>
            dispatched s' =
              dispatched s
              @ [ThemeChange_main (JStr ''auto'')
                   (if prefers_dark s then JStr ''dark'' else JStr ''light'')] \<and>
            (Warn, ''Invalid theme: '' @ ToString v @ '', defaulting to auto'')
              \<in> set (console s')"
    using assms by (simp add: setTheme_main_def s'(1,3,4,5,6) c g)
  have p: "\<exists>p'. setTheme_part3 v p = Inr p' \<and>
            currentTheme_part3 p' = currentTheme_part3 p \<and>
            items p' = items p \<and>
            data_theme p' = data_theme p \<and>
            dispatched p' = dispatched p \<and>
            console p' =
              console p
              @ [(Warn, ''Theme '' @ [CHR 0x22] @ ToString v @ [CHR 0x22]
                          @ '' is not available'')]"
    using assms by (simp add: setTheme_part3_def console_warn_def)
  from m p show ?thesis by blast
qed

text \<open>The amended C2 at \<^verbatim>\<open>'blue'\<close>, for managers whose theme is light.\<close>

theorem C2_setTheme_invalid_witness:
  "JStr ''blue'' \<notin> set themes \<and>
   map_sum id currentTheme_main (setTheme_main (JStr ''blue'') light_main) =
     Inr (JStr ''auto'') \<and>
   map_sum id items (setTheme_main (JStr ''blue'') light_main) =
     Inr [storageKey \<mapsto> ''auto''] \<and>
   map_sum id currentTheme_part3 (setTheme_part3 (JStr ''blue'') light_part3) =
     Inr (JStr ''light'') \<and>
   map_sum id items (setTheme_part3 (JStr ''blue'') light_part3) =
     Inr [storageKey \<mapsto> ''light''] \<and>
   map_sum id dispatched (setTheme_part3 (JStr ''blue'') light_part3) = Inr []"
proof -
  have h: "JStr ''blue'' \<notin> set themes" by (simp add: in_themes)
  obtain s' p' where "setTheme_main (JStr ''blue'') light_main = Inr s'"
    "currentTheme_main s' = JStr ''auto''"
    "items s' =
       (if setItem_throws light_main then items light_main
        else (items light_main)(storageKey \<mapsto> ''auto''))"
    "setTheme_part3 (JStr ''blue'') light_part3 = Inr p'"
    "currentTheme_part3 p' = currentTheme_part3 light_part3"
    "items p' = items light_part3" "dispatched p' = dispatched light_part3"
    using C2_setTheme_invalid [OF h, of light_main light_part3] by blast
  with h show ?thesis
    by (simp add: light_main_def light_part3_def)
qed

section \<open>What construction resolves, applies and returns\<close>

text \<open>
  Claim C3 as stated does not hold. \<^verbatim>\<open>init()\<close> returns \<^verbatim>\<open>undefined\<close> in both
  managers, also in a browser without a stored theme that prefers light, where the claim
  expects light. In part_003 a stored \<^verbatim>\<open>'blue'\<close> is not replaced by auto, and with no
  stored theme in a browser that prefers dark the constructor applies light although
  the effective theme is dark.
\<close>

theorem C3_init_counterexample:
  "map_sum id fst (call_main Init (fresh_main\<lparr>currentTheme_main := JStr ''auto''\<rparr>)) =
     Inr JUndefined \<and>
   map_sum id fst (call_part3 Init fresh_part3) = Inr JUndefined \<and>
   map_sum id currentTheme_part3
     (constructor_part3 (fresh_part3\<lparr>items := [storageKey \<mapsto> ''blue'']\<rparr>)) =
     Inr (JStr ''blue'') \<and>
   map_sum id (\<lambda>p. (data_theme p, getAppliedTheme_part3 p))
     (constructor_part3 (fresh_part3\<lparr>prefers_dark := True\<rparr>)) =
     Inr (Some ''light'', JStr ''dark'')"
proof -
  obtain s' where "init_main (fresh_main\<lparr>currentTheme_main := JStr ''auto''\<rparr>) = Inr s'"
    using init_main_total by blast
  then have 1: "map_sum id fst
      (call_main Init (fresh_main\<lparr>currentTheme_main := JStr ''auto''\<rparr>)) = Inr JUndefined"
    by simp
  obtain p' where "init_part3 fresh_part3 = Inr p'"
    using init_part3_total by blast
  then have 2: "map_sum id fst (call_part3 Init fresh_part3) = Inr JUndefined"
    by simp
  obtain p1 where p1: "constructor_part3 (fresh_part3\<lparr>items := [storageKey \<mapsto> ''blue'']\<rparr>) =
      Inr p1"
    "currentTheme_part3 p1 =
       (if getItem_throws (fresh_part3\<lparr>items := [storageKey \<mapsto> ''blue'']\<rparr>) then JStr ''auto''
        else (case items (fresh_part3\<lparr>items := [storageKey \<mapsto> ''blue'']\<rparr>) storageKey of
                None \<Rightarrow> JStr ''auto''
              | Some v \<Rightarrow> if v = [] then JStr ''auto'' else JStr v))"
    using constructor_part3_effect [of "fresh_part3\<lparr>items := [storageKey \<mapsto> ''blue'']\<rparr>"]
    by blast
  have 3: "map_sum id currentTheme_part3
     (constructor_part3 (fresh_part3\<lparr>items := [storageKey \<mapsto> ''blue'']\<rparr>)) =
     Inr (JStr ''blue'')"
  proof -
    have "currentTheme_part3 p1 = JStr ''blue''"
      using p1(2) by (simp add: fresh_part3_def)
    then show ?thesis by (simp add: p1(1))
  qed
  obtain p2 where p2: "constructor_part3 (fresh_part3\<lparr>prefers_dark := True\<rparr>) = Inr p2"
    "currentTheme_part3 p2 =
       (if getItem_throws (fresh_part3\<lparr>prefers_dark := True\<rparr>) then JStr ''auto''
        else (case items (fresh_part3\<lparr>prefers_dark := True\<rparr>) storageKey of
                None \<Rightarrow> JStr ''auto''
              | Some v \<Rightarrow> if v = [] then JStr ''auto'' else JStr v))"
    "systemTheme_part3 p2 =
       (if prefers_dark (fresh_part3\<lparr>prefers_dark := True\<rparr>) then JStr ''dark''
        else JStr ''light'')"
    "data_theme p2 =
       Some (if currentTheme_part3 p2 = JStr ''auto'' then ''light''
             else ToString (currentTheme_part3 p2))"
    using constructor_part3_effect [of "fresh_part3\<lparr>prefers_dark := True\<rparr>"] by blast
  have "currentTheme_part3 p2 = JStr ''auto''" "systemTheme_part3 p2 = JStr ''dark''"
    using p2(2,3) by (simp_all add: fresh_part3_def)
  then have 4: "map_sum id (\<lambda>p. (data_theme p, getAppliedTheme_part3 p))
     (constructor_part3 (fresh_part3\<lparr>prefers_dark := True\<rparr>)) =
     Inr (Some ''light'', JStr ''dark'')"
    using p2(4) by (simp add: p2(1) getAppliedTheme_part3_def js_or_def)
  from 1 2 3 4 show ?thesis by blast
qed

lemma constructor_main_resolves:
  "\<exists>s'. constructor_main w = Inr s' \<and>
      currentTheme_main s' =
        (if getItem_throws w then JStr ''auto''
         else (case items w storageKey of
                 None \<Rightarrow> JStr ''auto''
               | Some x \<Rightarrow> if JStr x \<in> set themes then JStr x else JStr ''auto'')) \<and>
      data_theme s' = Some (ToString (getActualTheme_main s')) \<and>
      getActualTheme_main s' =
        (if currentTheme_main s' = JStr ''dark'' \<or>
            (currentTheme_main s' = JStr ''auto'' \<and> prefers_dark w)
         then JStr ''dark'' else JStr ''light'')"
proof -
  obtain s' where s': "constructor_main w = Inr s'"
    "currentTheme_main s' =
       (if getItem_throws w then JStr ''auto''
        else (case items w storageKey of
                None \<Rightarrow> JStr ''auto''
              | Some v \<Rightarrow> if JStr v \<in> set themes then JStr v else JStr ''auto''))"
    "data_theme s' = Some (ToString (getActualTheme_main s'))"
    "prefers_dark s' = prefers_dark w"
    using constructor_main_effect [of w] by blast
  from s'(2) have "currentTheme_main s' \<in> set themes"
    by (simp add: in_themes split: option.splits if_splits)
  then have "getActualTheme_main s' =
        (if currentTheme_main s' = JStr ''dark'' \<or>
            (currentTheme_main s' = JStr ''auto'' \<and> prefers_dark w)
         then JStr ''dark'' else JStr ''light'')"
    by (auto simp: getActualTheme_main_def in_themes s'(4))
  with s'(1-3) show ?thesis by blast
qed

lemma constructor_part3_resolves:
  "\<exists>p'. constructor_part3 v = Inr p' \<and>
      (getItem_throws v \<or> items v storageKey = None \<or> items v storageKey = Some [] \<longrightarrow>
         currentTheme_part3 p' = JStr ''auto'') \<and>
      (\<not> getItem_throws v \<and> items v storageKey = Some x \<and> JStr x \<in> set themes \<longrightarrow>
         currentTheme_part3 p' = JStr x) \<and>
      (currentTheme_part3 p' = JStr ''light'' \<or> currentTheme_part3 p' = JStr ''dark'' \<longrightarrow>
         data_theme p' = Some (ToString (currentTheme_part3 p')) \<and>
         getAppliedTheme_part3 p' = currentTheme_part3 p') \<and>
      (currentTheme_part3 p' = JStr ''auto'' \<and> \<not> prefers_dark v \<longrightarrow>
         data_theme p' = Some ''light'' \<and> getAppliedTheme_part3 p' = JStr ''light'')"
proof -
  obtain p' where p': "constructor_part3 v = Inr p'"
    "currentTheme_part3 p' =
       (if getItem_throws v then JStr ''auto''
        else (case items v storageKey of
                None \<Rightarrow> JStr ''auto''
              | Some v \<Rightarrow> if v = [] then JStr ''auto'' else JStr v))"
    "systemTheme_part3 p' = (if prefers_dark v then JStr ''dark'' else JStr ''light'')"
    "data_theme p' =
       Some (if currentTheme_part3 p' = JStr ''auto'' then ''light''
             else ToString (currentTheme_part3 p'))"
    using constructor_part3_effect [of v] by blast
  have a: "getItem_throws v \<or> items v storageKey = None \<or> items v storageKey = Some [] \<longrightarrow>
         currentTheme_part3 p' = JStr ''auto''"
    using p'(2) by auto
  have b: "\<not> getItem_throws v \<and> items v storageKey = Some x \<and> JStr x \<in> set themes \<longrightarrow>
         currentTheme_part3 p' = JStr x"
    using p'(2) by (auto simp: in_themes)
  have c: "currentTheme_part3 p' = JStr ''light'' \<or> currentTheme_part3 p' = JStr ''dark'' \<longrightarrow>
         data_theme p' = Some (ToString (currentTheme_part3 p')) \<and>
         getAppliedTheme_part3 p' = currentTheme_part3 p'"
    using p'(4) by (auto simp: getAppliedTheme_part3_def)
  have d: "currentTheme_part3 p' = JStr ''auto'' \<and> \<not> prefers_dark v \<longrightarrow>
         data_theme p' = Some ''light'' \<and> getAppliedTheme_part3 p' = JStr ''light''"
    using p'(3,4) by (auto simp: getAppliedTheme_part3_def js_or_def)
  from p'(1) a b c d show ?thesis by blast
qed

text \<open>
  Claim C3, amended. \<^verbatim>\<open>new ThemeManager()\<close> reads the stored theme and takes auto when
  the read fails, the key is missing or its value is empty; main.js also takes auto for a
  stored value that is none of the three themes. A stored light, dark or auto is kept.
  main.js applies to \<^verbatim>\<open>data-theme\<close> the effective theme, which is dark if the theme is
  dark, or auto in a browser that prefers dark, and light otherwise; part_003 applies a
  resolved light or dark as it is, and applies light when the theme is auto and the
  browser prefers light. \<^verbatim>\<open>init()\<close> returns \<^verbatim>\<open>undefined\<close>; the effective theme is
  read with \<^verbatim>\<open>getActualTheme()\<close> or \<^verbatim>\<open>getAppliedTheme()\<close>.
\<close>

theorem C3_constructor_resolves:
  "(\<exists>s'. constructor_main w = Inr s' \<and>
      currentTheme_main s' =
        (if getItem_throws w then JStr ''auto''
         else (case items w storageKey of
                 None \<Rightarrow> JStr ''auto''
               | Some x \<Rightarrow> if JStr x \<in> set themes then JStr x else JStr ''auto'')) \<and>
      data_theme s' = Some (ToString (getActualTheme_main s')) \<and>
      getActualTheme_main s' =
        (if currentTheme_main s' = JStr ''dark'' \<or>
            (currentTheme_main s' = JStr ''auto'' \<and> prefers_dark w)
         then JStr ''dark'' else JStr ''light'')) \<and>
   (\<exists>s'. call_main Init s = Inr (JUndefined, s')) \<and>
   (\<exists>p'. constructor_part3 v = Inr p' \<and>
      (getItem_throws v \<or> items v storageKey = None \<or> items v storageKey = Some [] \<longrightarrow>
         currentTheme_part3 p' = JStr ''auto'') \<and>
      (\<not> getItem_throws v \<and> items v storageKey = Some x \<and> JStr x \<in> set themes \<longrightarrow>
         currentTheme_part3 p' = JStr x) \<and>
      (currentTheme_part3 p' = JStr ''light'' \<or> currentTheme_part3 p' = JStr ''dark'' \<longrightarrow>
         data_theme p' = Some (ToString (currentTheme_part3 p')) \<and>
         getAppliedTheme_part3 p' = currentTheme_part3 p') \<and>
      (currentTheme_part3 p' = JStr ''auto'' \<and> \<not> prefers_dark v \<longrightarrow>
         data_theme p' = Some ''light'' \<and> getAppliedTheme_part3 p' = JStr ''light'')) \<and>
   (\<exists>p'. call_part3 Init p = Inr (JUndefined, p'))"
proof -
  have "\<exists>s'. call_main Init s = Inr (JUndefined, s')"
    using init_main_total [of s] by auto
  moreover have "\<exists>p'. call_part3 Init p = Inr (JUndefined, p')"
    using init_part3_total [of p] by auto
  ultimately show ?thesis
    using constructor_main_resolves [of w] constructor_part3_resolves [of v x] by blast
qed

text \<open>
  The amended C3 in a browser without a stored theme that prefers light: the theme is
  auto, light is applied and light is the effective theme.
\<close>

theorem C3_constructor_resolves_witness:
  "items fresh_main storageKey = None \<and> \<not> getItem_throws fresh_main \<and>
   \<not> prefers_dark fresh_main \<and>
   map_sum id (\<lambda>s. (currentTheme_main s, data_theme s, getActualTheme_main s))
     (constructor_main fresh_main) = Inr (JStr ''auto'', Some ''light'', JStr ''light'') \<and>
   items fresh_part3 storageKey = None \<and> \<not> prefers_dark fresh_part3 \<and>
   map_sum id (\<lambda>p. (currentTheme_part3 p, data_theme p, getAppliedTheme_part3 p))
     (constructor_part3 fresh_part3) = Inr (JStr ''auto'', Some ''light'', JStr ''light'') \<and>
   \<not> getItem_throws (fresh_part3\<lparr>items := [storageKey \<mapsto> ''dark'']\<rparr>) \<and>
   items (fresh_part3\<lparr>items := [storageKey \<mapsto> ''dark'']\<rparr>) storageKey = Some ''dark'' \<and>
   JStr ''dark'' \<in> set themes \<and>
   map_sum id (\<lambda>p. (currentTheme_part3 p, data_theme p, getAppliedTheme_part3 p))
     (constructor_part3 (fresh_part3\<lparr>items := [storageKey \<mapsto> ''dark'']\<rparr>)) =
     Inr (JStr ''dark'', Some ''dark'', JStr ''dark'')"
proof -
  have h: "items fresh_main storageKey = None" "\<not> getItem_throws fresh_main"
    "\<not> prefers_dark fresh_main" "items fresh_part3 storageKey = None"
    "\<not> prefers_dark fresh_part3"
    "\<not> getItem_throws (fresh_part3\<lparr>items := [storageKey \<mapsto> ''dark'']\<rparr>)"
    "items (fresh_part3\<lparr>items := [storageKey \<mapsto> ''dark'']\<rparr>) storageKey = Some ''dark''"
    "JStr ''dark'' \<in> set themes"
    by (simp_all add: fresh_main_def fresh_part3_def in_themes)
  obtain s' p' where 1: "constructor_main fresh_main = Inr s'"
    "currentTheme_main s' =
        (if getItem_throws fresh_main then JStr ''auto''
         else (case items fresh_main storageKey of
                 None \<Rightarrow> JStr ''auto''
               | Some x \<Rightarrow> if JStr x \<in> set themes then JStr x else JStr ''auto''))"
    "data_theme s' = Some (ToString (getActualTheme_main s'))"
    "getActualTheme_main s' =
        (if currentTheme_main s' = JStr ''dark'' \<or>
            (currentTheme_main s' = JStr ''auto'' \<and> prefers_dark fresh_main)
         then JStr ''dark'' else JStr ''light'')"
    and 2: "constructor_part3 fresh_part3 = Inr p'"
    "getItem_throws fresh_part3 \<or> items fresh_part3 storageKey = None \<or>
       items fresh_part3 storageKey = Some [] \<longrightarrow> currentTheme_part3 p' = JStr ''auto''"
    "currentTheme_part3 p' = JStr ''auto'' \<and> \<not> prefers_dark fresh_part3 \<longrightarrow>
         data_theme p' = Some ''light'' \<and> getAppliedTheme_part3 p' = JStr ''light''"
    using C3_constructor_resolves [of fresh_main fresh_main fresh_part3 "''dark''" fresh_part3]
    by blast
  obtain q' where 3:
    "constructor_part3 (fresh_part3\<lparr>items := [storageKey \<mapsto> ''dark'']\<rparr>) = Inr q'"
    "\<not> getItem_throws (fresh_part3\<lparr>items := [storageKey \<mapsto> ''dark'']\<rparr>) \<and>
       items (fresh_part3\<lparr>items := [storageKey \<mapsto> ''dark'']\<rparr>) storageKey = Some ''dark'' \<and>
       JStr ''dark'' \<in> set themes \<longrightarrow> currentTheme_part3 q' = JStr ''dark''"
    "currentTheme_part3 q' = JStr ''light'' \<or> currentTheme_part3 q' = JStr ''dark'' \<longrightarrow>
         data_theme q' = Some (ToString (currentTheme_part3 q')) \<and>
         getAppliedTheme_part3 q' = currentTheme_part3 q'"
    using C3_constructor_resolves [of fresh_main fresh_main
        "fresh_part3\<lparr>items := [storageKey \<mapsto> ''dark'']\<rparr>" "''dark''" fresh_part3]
    by blast
  have a: "currentTheme_main s' = JStr ''auto''" using 1(2) h by simp
  have b: "getActualTheme_main s' = JStr ''light''" using 1(4) h by (simp add: a)
  have c: "currentTheme_part3 p' = JStr ''auto''" using 2(2) h by simp
  have d: "data_theme p' = Some ''light''" "getAppliedTheme_part3 p' = JStr ''light''"
    using 2(3) h c by simp_all
  have e: "currentTheme_part3 q' = JStr ''dark''" using 3(2) h by blast
  have f: "data_theme q' = Some ''dark''" "getAppliedTheme_part3 q' = JStr ''dark''"
    using 3(3) e by simp_all
  show ?thesis
    using h by (simp add: 1(1,3) 2(1) 3(1) a b c d e f)
qed

section \<open>A change of the colour scheme while the theme is auto\<close>

lemma systemChange_part3_auto:
  assumes "currentTheme_part3 p = JStr ''auto''" and "listeners_part3 p = 1"
  shows "\<exists>p'. systemChange_part3 b p = Inr p' \<and>
     dispatched p' =
       dispatched p
       @ [ThemeChange_part3 (JStr ''auto'') (if b then JStr ''dark'' else JStr ''light'')
            (if b then JStr ''dark'' else JStr ''light'')] \<and>
     data_theme p' = Some (if b then ''dark'' else ''light'') \<and>
     getAppliedTheme_part3 p' = (if b then JStr ''dark'' else JStr ''light'') \<and>
     currentTheme_part3 p' = JStr ''auto'' \<and> prefers_dark p' = b \<and>
     listeners_part3 p' = 1"
proof -
  let ?p1 = "p\<lparr>prefers_dark := b,
               systemTheme_part3 := (if b then JStr ''dark'' else JStr ''light'')\<rparr>"
  obtain p' where p': "applyTheme_part3 (JStr ''auto'') True ?p1 = Inr p'"
    "currentTheme_part3 p' = JStr ''auto''"
    "systemTheme_part3 p' = systemTheme_part3 ?p1"
    "data_theme p' = Some (ToString (getAppliedTheme_part3 p'))"
    "dispatched p' =
       dispatched ?p1
       @ [ThemeChange_part3 (JStr ''auto'') (getAppliedTheme_part3 p') (systemTheme_part3 ?p1)]"
    "prefers_dark p' = prefers_dark ?p1" "listeners_part3 p' = listeners_part3 ?p1"
    using applyTheme_part3_effect [of "JStr ''auto''" True ?p1] by blast
  have g: "getAppliedTheme_part3 p' = (if b then JStr ''dark'' else JStr ''light'')"
    by (simp add: getAppliedTheme_part3_def p'(2,3) js_or_def)
  have "systemChange_part3 b p = Inr p'"
    using assms p'(1) by (simp add: systemChange_part3_def listener_part3_def Let_def)
  with p' g assms(2) show ?thesis by simp
qed

text \<open>
  Claim C5 fails in main.js. A manager constructed without a stored theme has the theme
  auto. When the browser then turns to dark and back to light, the listener sets
  \<^verbatim>\<open>data-theme\<close> to dark and to light, but the only event ever dispatched is the one
  of the construction: the listener calls \<^verbatim>\<open>updateDocumentTheme\<close>, which dispatches
  nothing. The listener of part_003 calls \<^verbatim>\<open>applyTheme\<close> and dispatches one event per
  change (lemma \<open>systemChange_part3_auto\<close>).
\<close>

theorem C5_main_change_dispatches_nothing:
  "map_sum id (\<lambda>s. (currentTheme_main s, data_theme s, dispatched s))
     (constructor_main fresh_main) =
     Inr (JStr ''auto'', Some ''light'', [ThemeChange_main (JStr ''auto'') (JStr ''light'')]) \<and>
   map_sum id (\<lambda>s. (currentTheme_main s, data_theme s, dispatched s))
     (then_do (constructor_main fresh_main) (run_main [SystemChange True])) =
     Inr (JStr ''auto'', Some ''dark'', [ThemeChange_main (JStr ''auto'') (JStr ''light'')]) \<and>
   map_sum id (\<lambda>s. (currentTheme_main s, data_theme s, dispatched s))
     (then_do (constructor_main fresh_main) (run_main [SystemChange True, SystemChange False])) =
     Inr (JStr ''auto'', Some ''light'', [ThemeChange_main (JStr ''auto'') (JStr ''light'')])"
  by (simp add: constructor_main_def getStoredTheme_main_eq init_main_def applyTheme_main_def
      storeTheme_main_eq in_themes updateDocumentTheme_main_def setAttribute_data_theme_def
      dispatchEvent_def console_log_def systemChange_main_eq fresh_main_def Let_def)

section \<open>The values of the data-theme attribute\<close>

lemma effective_main_light_or_dark:
  assumes "currentTheme_main s \<in> set themes"
  shows "ToString (getActualTheme_main s) = ''light'' \<or> ToString (getActualTheme_main s) = ''dark''"
  using assms by (auto simp: getActualTheme_main_def in_themes)

lemma applyTheme_main_valid:
  assumes "applyTheme_main t a s = Inr s'"
  shows "currentTheme_main s' \<in> set themes \<and>
     (data_theme s' = Some ''light'' \<or> data_theme s' = Some ''dark'')"
proof -
  obtain s2 where s2: "applyTheme_main t a s = Inr s2"
    "currentTheme_main s2 = (if t \<in> set themes then t else JStr ''auto'')"
    "data_theme s2 = Some (ToString (getActualTheme_main s2))"
    using applyTheme_main_effect [of t a s] by blast
  from s2(2) have c: "currentTheme_main s2 \<in> set themes"
    by (cases "t \<in> set themes") (simp_all add: in_themes)
  from effective_main_light_or_dark [OF c] s2(3) c assms s2(1) show ?thesis by auto
qed

lemma call_main_valid:
  assumes "currentTheme_main s \<in> set themes \<and>
      (data_theme s = Some ''light'' \<or> data_theme s = Some ''dark'')"
    and "call_main a s = Inr (v, s')"
  shows "currentTheme_main s' \<in> set themes \<and>
      (data_theme s' = Some ''light'' \<or> data_theme s' = Some ''dark'')"
proof (cases a)
  case Init
  with assms(2) have "init_main s = Inr s'"
    by (cases "init_main s") auto
  then obtain s1 where s1: "applyTheme_main (currentTheme_main s) False s = Inr s1"
    and e: "s' = console_log (''Theme Manager initialized: '' @ ToString (currentTheme_main s1))
        (s1\<lparr>listeners_main := Suc (listeners_main s1)\<rparr>)"
    by (cases "applyTheme_main (currentTheme_main s) False s")
       (auto simp: init_main_def Let_def)
  from applyTheme_main_valid [OF s1] show ?thesis by (simp add: e console_log_def)
next
  case (SetTheme t)
  with assms(2) have "applyTheme_main t True s = Inr s'"
    by (cases "applyTheme_main t True s") (auto simp: setTheme_main_def)
  then show ?thesis by (rule applyTheme_main_valid)
next
  case CycleTheme
  with assms(2) have "cycleTheme_main s = Inr s'"
    by (cases "cycleTheme_main s") auto
  then obtain t where "applyTheme_main t True s = Inr s'"
    by (simp add: cycleTheme_main_eq setTheme_main_def)
  then show ?thesis by (rule applyTheme_main_valid)
next
  case GetTheme
  with assms show ?thesis by auto
next
  case GetEffective
  with assms show ?thesis by auto
next
  case (SystemChange b)
  with assms show ?thesis by (auto simp: systemChange_main_eq split: if_splits)
qed

text \<open>
  In main.js the attribute is light or dark after construction and stays so under every
  sequence of actions.
\<close>

lemma main_data_theme_light_or_dark:
  "\<exists>s0 s. constructor_main w = Inr s0 \<and> run_main as s0 = Inr s \<and>
     currentTheme_main s \<in> set themes \<and>
     (data_theme s = Some ''light'' \<or> data_theme s = Some ''dark'')"
proof -
  obtain s0 where s0: "constructor_main w = Inr s0"
    "currentTheme_main s0 =
       (if getItem_throws w then JStr ''auto''
        else (case items w storageKey of
                None \<Rightarrow> JStr ''auto''
              | Some v \<Rightarrow> if JStr v \<in> set themes then JStr v else JStr ''auto''))"
    "data_theme s0 = Some (ToString (getActualTheme_main s0))"
    using constructor_main_effect [of w] by blast
  from s0(2) have c: "currentTheme_main s0 \<in> set themes"
    by (simp add: in_themes split: option.splits if_splits)
  from effective_main_light_or_dark [OF c] s0(3) c
  have j: "currentTheme_main s0 \<in> set themes \<and>
      (data_theme s0 = Some ''light'' \<or> data_theme s0 = Some ''dark'')"
    by auto
  obtain s where s: "run_main as s0 = Inr s" using run_main_total by blast
  have "currentTheme_main s \<in> set themes \<and>
      (data_theme s = Some ''light'' \<or> data_theme s = Some ''dark'')"
    using call_main_valid j s
    by (rule run_main_preserves [where P = "\<lambda>x. currentTheme_main x \<in> set themes \<and>
      (data_theme x = Some ''light'' \<or> data_theme x = Some ''dark'')"])
  with s0(1) s show ?thesis by blast
qed

text \<open>
  Claim C8 fails in part_003. Constructed over a storage that holds \<^verbatim>\<open>'blue'\<close> under
  the key, the manager sets \<^verbatim>\<open>data-theme\<close> to \<^verbatim>\<open>'blue'\<close>, and a change of the colour
  scheme leaves it there: \<^verbatim>\<open>init\<close> passes the stored value to \<^verbatim>\<open>applyTheme\<close>, which
  does not check it. main.js checks it in \<^verbatim>\<open>applyTheme\<close> (lemma
  \<open>main_data_theme_light_or_dark\<close>).
\<close>

theorem C8_part3_data_theme_blue:
  "map_sum id data_theme
     (constructor_part3 (fresh_part3\<lparr>items := [storageKey \<mapsto> ''blue'']\<rparr>)) =
     Inr (Some ''blue'') \<and>
   map_sum id data_theme
     (then_do (constructor_part3 (fresh_part3\<lparr>items := [storageKey \<mapsto> ''blue'']\<rparr>))
        (run_part3 [SystemChange True])) = Inr (Some ''blue'')"
  by (simp add: constructor_part3_def init_part3_def getStoredTheme_part3_eq
      applyTheme_part3_def storeTheme_part3_eq setAttribute_data_theme_def
      dispatchThemeChangeEvent_part3_def dispatchEvent_def detectSystemTheme_part3_def
      setupSystemThemeListener_part3_def defaultTheme_def js_or_def systemChange_part3_def
      listener_part3_def fresh_part3_def Let_def)

end
